theory Spec2Isabelle
  imports Complex_Main
begin

section \<open>Values of the host language\<close>

text \<open>
  A parsed JSON text is a value of the following type. Numbers are the finite
  numbers of the host language, taken as reals (\<open>NaN\<close> and the infinities never come
  out of \<open>JSON.parse\<close>). An object is an association list in insertion order.
\<close>

datatype json =
    JNull
  | JBool bool
  | JNum real
  | JStr string
  | JArr "json list"
  | JObj "(string \<times> json) list"

text \<open>Exceptions that the modelled code can see.\<close>

datatype exn =
    Error string
  | DOMException string
  | SyntaxError
  | TypeError

text \<open>
  What the code takes from the host and from its libraries without defining it:
  \<open>JSON.parse\<close> (\<open>None\<close> is a thrown \<open>SyntaxError\<close>), \<open>JSON.stringify\<close>, the
  \<open>uuid()\<close> and \<open>datetime()\<close> string checks of the schema library, and the numeric
  coercion of a value that is not a number, a boolean or \<open>null\<close> (\<open>None\<close> is
  \<open>NaN\<close>).
\<close>

record platform =
  JSON_parse :: "string \<Rightarrow> json option"
  JSON_stringify :: "json \<Rightarrow> string"
  zod_uuid :: "string \<Rightarrow> bool"
  zod_datetime :: "string \<Rightarrow> bool"
  ToNumber_other :: "json \<Rightarrow> real option"

text \<open>Truthiness of a value and of a string read from the store.\<close>

fun truthy :: "json \<Rightarrow> bool" where
  "truthy JNull = False"
| "truthy (JBool b) = b"
| "truthy (JNum x) = (x \<noteq> 0)"
| "truthy (JStr s) = (s \<noteq> [])"
| "truthy (JArr xs) = True"
| "truthy (JObj kvs) = True"

fun truthy_raw :: "string option \<Rightarrow> bool" where
  "truthy_raw None = False"
| "truthy_raw (Some s) = (s \<noteq> [])"

text \<open>
  Reading the property \<open>k\<close> of a value: \<open>Inr None\<close> is \<open>undefined\<close>; reading a
  property of \<open>null\<close> throws. Only the properties \<open>lockId\<close> and \<open>timestamp\<close> are
  read this way, and no string, number, boolean or array has them.
\<close>

fun get_prop :: "json \<Rightarrow> string \<Rightarrow> exn + json option" where
  "get_prop JNull k = Inl TypeError"
| "get_prop (JObj kvs) k = Inr (map_of kvs k)"
| "get_prop v k = Inr None"

text \<open>Optional chaining \<open>v?.k\<close>: \<open>null\<close> gives \<open>undefined\<close>.\<close>

fun get_prop_opt :: "json \<Rightarrow> string \<Rightarrow> json option" where
  "get_prop_opt (JObj kvs) k = map_of kvs k"
| "get_prop_opt v k = None"

text \<open>Numeric coercion of the right operand of \<open>Date.now() - x\<close>.\<close>

fun ToNumber :: "platform \<Rightarrow> json option \<Rightarrow> real option" where
  "ToNumber E None = None"
| "ToNumber E (Some (JNum x)) = Some x"
| "ToNumber E (Some JNull) = Some 0"
| "ToNumber E (Some (JBool b)) = Some (if b then 1 else 0)"
| "ToNumber E (Some v) = ToNumber_other E v"

section \<open>Schema validation (utils/validation.ts)\<close>

record Task =
  task_id :: string
  description :: string
  completed :: bool
  createdAt :: string
  completedAt :: "string option"
  date :: string

datatype SortOrder = newest_first | oldest_first

record UserPreferences =
  lastViewedDate :: string
  sortOrder :: SortOrder

record StorageMetadata =
  version :: string
  lastModified :: string
  totalTaskCount :: real
  oldestTaskDate :: "string option"
  newestTaskDate :: "string option"

record AppData =
  metadata :: StorageMetadata
  tasks :: "Task list"
  preferences :: UserPreferences

text \<open>The regular expression \<open>/^\d{4}-\d{2}-\d{2}$/\<close>.\<close>

definition digit :: "char \<Rightarrow> bool" where
  "digit c = (c \<in> set ''0123456789'')"

fun date_regex :: "string \<Rightarrow> bool" where
  "date_regex [y1, y2, y3, y4, h1, m1, m2, h2, d1, d2] =
     (digit y1 \<and> digit y2 \<and> digit y3 \<and> digit y4 \<and> h1 = CHR ''-'' \<and>
      digit m1 \<and> digit m2 \<and> h2 = CHR ''-'' \<and> digit d1 \<and> digit d2)"
| "date_regex s = False"

text \<open>
  The primitive schemas. Each takes the value found under a key, \<open>None\<close> when the
  key is missing, and returns the typed value or \<open>None\<close> on a validation issue.
\<close>

fun z_string :: "(string \<Rightarrow> bool) \<Rightarrow> json option \<Rightarrow> string option" where
  "z_string ok (Some (JStr s)) = (if ok s then Some s else None)"
| "z_string ok v = None"

fun z_string_nullable :: "(string \<Rightarrow> bool) \<Rightarrow> json option \<Rightarrow> string option option" where
  "z_string_nullable ok (Some JNull) = Some None"
| "z_string_nullable ok (Some (JStr s)) = (if ok s then Some (Some s) else None)"
| "z_string_nullable ok v = None"

fun z_boolean :: "json option \<Rightarrow> bool option" where
  "z_boolean (Some (JBool b)) = Some b"
| "z_boolean v = None"

fun z_number_int_nonnegative :: "json option \<Rightarrow> real option" where
  "z_number_int_nonnegative (Some (JNum x)) =
     (if of_int \<lfloor>x\<rfloor> = x \<and> 0 \<le> x then Some x else None)"
| "z_number_int_nonnegative v = None"

fun z_enum_sortOrder :: "json option \<Rightarrow> SortOrder option" where
  "z_enum_sortOrder (Some (JStr s)) =
     (if s = ''newest-first'' then Some newest_first
      else if s = ''oldest-first'' then Some oldest_first else None)"
| "z_enum_sortOrder v = None"

definition min_max :: "nat \<Rightarrow> nat \<Rightarrow> string \<Rightarrow> bool" where
  "min_max lo hi s = (lo \<le> length s \<and> length s \<le> hi)"

definition any_string :: "string \<Rightarrow> bool" where
  "any_string s = True"

fun TaskSchema :: "platform \<Rightarrow> json \<Rightarrow> Task option" where
  "TaskSchema E (JObj kvs) =
     (case z_string (zod_uuid E) (map_of kvs ''id'') of None \<Rightarrow> None | Some i \<Rightarrow>
      (case z_string (min_max 1 500) (map_of kvs ''description'') of None \<Rightarrow> None | Some d \<Rightarrow>
      (case z_boolean (map_of kvs ''completed'') of None \<Rightarrow> None | Some c \<Rightarrow>
      (case z_string (zod_datetime E) (map_of kvs ''createdAt'') of None \<Rightarrow> None | Some ca \<Rightarrow>
      (case z_string_nullable (zod_datetime E) (map_of kvs ''completedAt'') of None \<Rightarrow> None | Some cpa \<Rightarrow>
      (case z_string date_regex (map_of kvs ''date'') of None \<Rightarrow> None | Some dt \<Rightarrow>
        Some \<lparr>task_id = i, description = d, completed = c, createdAt = ca,
              completedAt = cpa, date = dt\<rparr>))))))"
| "TaskSchema E v = None"

fun UserPreferencesSchema :: "json option \<Rightarrow> UserPreferences option" where
  "UserPreferencesSchema (Some (JObj kvs)) =
     (case z_string date_regex (map_of kvs ''lastViewedDate'') of None \<Rightarrow> None | Some l \<Rightarrow>
      (case z_enum_sortOrder (map_of kvs ''sortOrder'') of None \<Rightarrow> None | Some so \<Rightarrow>
        Some \<lparr>lastViewedDate = l, sortOrder = so\<rparr>))"
| "UserPreferencesSchema v = None"

fun StorageMetadataSchema :: "platform \<Rightarrow> json option \<Rightarrow> StorageMetadata option" where
  "StorageMetadataSchema E (Some (JObj kvs)) =
     (case z_string any_string (map_of kvs ''version'') of None \<Rightarrow> None | Some v \<Rightarrow>
      (case z_string (zod_datetime E) (map_of kvs ''lastModified'') of None \<Rightarrow> None | Some lm \<Rightarrow>
      (case z_number_int_nonnegative (map_of kvs ''totalTaskCount'') of None \<Rightarrow> None | Some n \<Rightarrow>
      (case z_string_nullable date_regex (map_of kvs ''oldestTaskDate'') of None \<Rightarrow> None | Some od \<Rightarrow>
      (case z_string_nullable date_regex (map_of kvs ''newestTaskDate'') of None \<Rightarrow> None | Some nd \<Rightarrow>
        Some \<lparr>version = v, lastModified = lm, totalTaskCount = n,
              oldestTaskDate = od, newestTaskDate = nd\<rparr>)))))"
| "StorageMetadataSchema E v = None"

text \<open>\<open>z.array(TaskSchema)\<close>: every element must pass, one failure fails the array.\<close>

fun z_array_items :: "platform \<Rightarrow> json list \<Rightarrow> Task list option" where
  "z_array_items E [] = Some []"
| "z_array_items E (x # xs) =
     (case TaskSchema E x of None \<Rightarrow> None
      | Some t \<Rightarrow> (case z_array_items E xs of None \<Rightarrow> None | Some ts \<Rightarrow> Some (t # ts)))"

fun z_array_TaskSchema :: "platform \<Rightarrow> json option \<Rightarrow> Task list option" where
  "z_array_TaskSchema E (Some (JArr xs)) = z_array_items E xs"
| "z_array_TaskSchema E v = None"

text \<open>\<open>AppDataSchema.safeParse\<close>: \<open>Some\<close> is success with the parsed data.\<close>

fun AppDataSchema_safeParse :: "platform \<Rightarrow> json \<Rightarrow> AppData option" where
  "AppDataSchema_safeParse E (JObj kvs) =
     (case StorageMetadataSchema E (map_of kvs ''metadata'') of None \<Rightarrow> None | Some m \<Rightarrow>
      (case z_array_TaskSchema E (map_of kvs ''tasks'') of None \<Rightarrow> None | Some ts \<Rightarrow>
      (case UserPreferencesSchema (map_of kvs ''preferences'') of None \<Rightarrow> None | Some p \<Rightarrow>
        Some \<lparr>metadata = m, tasks = ts, preferences = p\<rparr>)))"
| "AppDataSchema_safeParse E v = None"

text \<open>A typed document as the value the host holds for it.\<close>

definition nullable_json :: "string option \<Rightarrow> json" where
  "nullable_json v = (case v of None \<Rightarrow> JNull | Some s \<Rightarrow> JStr s)"

definition Task_json :: "Task \<Rightarrow> json" where
  "Task_json t = JObj
     [(''id'', JStr (task_id t)), (''description'', JStr (description t)),
      (''completed'', JBool (completed t)), (''createdAt'', JStr (createdAt t)),
      (''completedAt'', nullable_json (completedAt t)), (''date'', JStr (date t))]"

definition SortOrder_string :: "SortOrder \<Rightarrow> string" where
  "SortOrder_string so = (case so of newest_first \<Rightarrow> ''newest-first'' | oldest_first \<Rightarrow> ''oldest-first'')"

definition UserPreferences_json :: "UserPreferences \<Rightarrow> json" where
  "UserPreferences_json p = JObj
     [(''lastViewedDate'', JStr (lastViewedDate p)),
      (''sortOrder'', JStr (SortOrder_string (sortOrder p)))]"

definition StorageMetadata_json :: "StorageMetadata \<Rightarrow> json" where
  "StorageMetadata_json m = JObj
     [(''version'', JStr (version m)), (''lastModified'', JStr (lastModified m)),
      (''totalTaskCount'', JNum (totalTaskCount m)),
      (''oldestTaskDate'', nullable_json (oldestTaskDate m)),
      (''newestTaskDate'', nullable_json (newestTaskDate m))]"

definition AppData_json :: "AppData \<Rightarrow> json" where
  "AppData_json d = JObj
     [(''metadata'', StorageMetadata_json (metadata d)),
      (''tasks'', JArr (map Task_json (tasks d))),
      (''preferences'', UserPreferences_json (preferences d))]"

section \<open>The key-value store\<close>

text \<open>
  The store maps keys to strings. A call of \<open>setItem\<close> either stores the value or
  throws and leaves the store as it was (the quota error of the host); which one
  happens at the \<open>n\<close>-th call is given by \<open>faults\<close>. \<open>getItem\<close> and \<open>removeItem\<close>
  do not throw.
\<close>

record localStorage =
  items :: "string \<Rightarrow> string option"
  faults :: "nat \<Rightarrow> exn option"
  writes :: nat

definition getItem :: "string \<Rightarrow> localStorage \<Rightarrow> string option" where
  "getItem k s = items s k"

definition setItem :: "string \<Rightarrow> string \<Rightarrow> localStorage \<Rightarrow> (exn + unit) \<times> localStorage" where
  "setItem k v s =
     (case faults s (writes s) of
        Some e \<Rightarrow> (Inl e, s\<lparr>writes := Suc (writes s)\<rparr>)
      | None \<Rightarrow> (Inr (), s\<lparr>items := (items s)(k := Some v), writes := Suc (writes s)\<rparr>))"

definition removeItem :: "string \<Rightarrow> localStorage \<Rightarrow> localStorage" where
  "removeItem k s = s\<lparr>items := (items s)(k := None)\<rparr>"

section \<open>Atomic writes and reads (utils/storage.ts)\<close>

definition STORAGE_KEY :: string where
  "STORAGE_KEY = ''todo-app-data''"

definition BACKUP_KEY :: string where
  "BACKUP_KEY = ''todo-app-data-backup''"

text \<open>The \<open>try\<close> block of \<open>atomicWrite\<close>, up to its first throw.\<close>

definition atomicWrite_try :: "platform \<Rightarrow> AppData \<Rightarrow> localStorage \<Rightarrow> (exn + unit) \<times> localStorage" where
  "atomicWrite_try E data s =
     (let serialized = JSON_stringify E (AppData_json data) in
      case AppDataSchema_safeParse E (AppData_json data) of
        None \<Rightarrow> (Inl (Error ''Invalid data structure''), s)
      | Some validated \<Rightarrow>
          (let currentData = getItem STORAGE_KEY s in
           case (if truthy_raw currentData then setItem BACKUP_KEY (the currentData) s
                 else (Inr (), s)) of
             (Inl e, s1) \<Rightarrow> (Inl e, s1)
           | (Inr u, s1) \<Rightarrow>
               (case setItem STORAGE_KEY serialized s1 of
                  (Inl e, s2) \<Rightarrow> (Inl e, s2)
                | (Inr u, s2) \<Rightarrow>
                    (if getItem STORAGE_KEY s2 \<noteq> Some serialized
                     then (Inl (Error ''Write verification failed''), s2)
                     else (Inr (), s2)))))"

text \<open>
  \<open>atomicWrite\<close>: the \<open>catch\<close> block restores the backup, if there is one, and
  throws the error again; a throw of the restoring \<open>setItem\<close> leaves the block with
  that exception instead. \<open>Inl\<close> is the rejected promise.
\<close>

definition atomicWrite :: "platform \<Rightarrow> AppData \<Rightarrow> localStorage \<Rightarrow> (exn + unit) \<times> localStorage" where
  "atomicWrite E data s =
     (case atomicWrite_try E data s of
        (Inr u, s1) \<Rightarrow> (Inr u, s1)
      | (Inl error, s1) \<Rightarrow>
          (let backup = getItem BACKUP_KEY s1 in
           if truthy_raw backup then
             (case setItem STORAGE_KEY (the backup) s1 of
                (Inl e, s2) \<Rightarrow> (Inl e, s2)
              | (Inr u, s2) \<Rightarrow> (Inl error, s2))
           else (Inl error, s1)))"

text \<open>\<open>readStorage\<close>: its \<open>try\<close> block, then the \<open>catch\<close> that returns \<open>null\<close>.\<close>

definition readStorage_try :: "platform \<Rightarrow> localStorage \<Rightarrow> exn + AppData option" where
  "readStorage_try E s =
     (let raw = getItem STORAGE_KEY s in
      if \<not> truthy_raw raw then Inr None
      else
        (case JSON_parse E (the raw) of
           None \<Rightarrow> Inl SyntaxError
         | Some parsed \<Rightarrow>
             (case AppDataSchema_safeParse E parsed of
                None \<Rightarrow> Inr None
              | Some data \<Rightarrow> Inr (Some data))))"

definition readStorage :: "platform \<Rightarrow> localStorage \<Rightarrow> exn + AppData option" where
  "readStorage E s = (case readStorage_try E s of Inl error \<Rightarrow> Inr None | Inr r \<Rightarrow> Inr r)"

definition validateStorage_try :: "platform \<Rightarrow> localStorage \<Rightarrow> exn + bool" where
  "validateStorage_try E s =
     (let raw = getItem STORAGE_KEY s in
      if \<not> truthy_raw raw then Inr True
      else
        (case JSON_parse E (the raw) of
           None \<Rightarrow> Inl SyntaxError
         | Some parsed \<Rightarrow> Inr (AppDataSchema_safeParse E parsed \<noteq> None)))"

definition validateStorage :: "platform \<Rightarrow> localStorage \<Rightarrow> exn + bool" where
  "validateStorage E s = (case validateStorage_try E s of Inl error \<Rightarrow> Inr False | Inr r \<Rightarrow> Inr r)"

definition clearStorage :: "localStorage \<Rightarrow> localStorage" where
  "clearStorage s = removeItem BACKUP_KEY (removeItem STORAGE_KEY s)"

definition exportRawData :: "localStorage \<Rightarrow> string" where
  "exportRawData s = (let raw = getItem STORAGE_KEY s in if truthy_raw raw then the raw else ''{}'')"

text \<open>\<open>createInitialAppData\<close>, given the ISO string of the current instant.\<close>

definition createInitialAppData :: "string \<Rightarrow> AppData" where
  "createInitialAppData now =
     (let today = takeWhile (\<lambda>c. c \<noteq> CHR ''T'') now in
      \<lparr>metadata = \<lparr>version = ''1.0.0'', lastModified = now, totalTaskCount = 0,
                   oldestTaskDate = None, newestTaskDate = None\<rparr>,
       tasks = [],
       preferences = \<lparr>lastViewedDate = today, sortOrder = newest_first\<rparr>\<rparr>)"

section \<open>The tab lock (utils/tabLock.ts)\<close>

definition LOCK_KEY :: string where
  "LOCK_KEY = ''todo-app-lock''"

definition LOCK_TIMEOUT :: real where
  "LOCK_TIMEOUT = 5 * 60 * 1000"

definition HEARTBEAT_INTERVAL :: real where
  "HEARTBEAT_INTERVAL = 30 * 1000"

record LockData =
  lockId :: string
  timestamp :: int

definition LockData_json :: "LockData \<Rightarrow> json" where
  "LockData_json l = JObj [(''lockId'', JStr (lockId l)), (''timestamp'', JNum (of_int (timestamp l)))]"

text \<open>
  The variables of the module, one copy in each tab, with what the tab has
  registered with its window: the interval timer of the heartbeat, the lock
  identifiers of its \<open>beforeunload\<close> listeners, and the messages it has posted on the
  broadcast channel.
\<close>

datatype message = lock_acquired | lock_released

record tab =
  currentLockId :: "string option"
  heartbeatTimer :: "nat option"
  broadcastChannel :: bool
  next_timer :: nat
  beforeunload :: "string list"
  posted :: "message list"

text \<open>
  \<open>getLockData\<close>: \<open>JNull\<close> is the \<open>null\<close> it returns for a missing or empty
  value and from its \<open>catch\<close>; the parsed value is not checked against any shape.
\<close>

definition getLockData_try :: "platform \<Rightarrow> localStorage \<Rightarrow> exn + json" where
  "getLockData_try E s =
     (let raw = getItem LOCK_KEY s in
      if \<not> truthy_raw raw then Inr JNull
      else (case JSON_parse E (the raw) of None \<Rightarrow> Inl SyntaxError | Some v \<Rightarrow> Inr v))"

definition getLockData :: "platform \<Rightarrow> localStorage \<Rightarrow> exn + json" where
  "getLockData E s = (case getLockData_try E s of Inl error \<Rightarrow> Inr JNull | Inr v \<Rightarrow> Inr v)"

text \<open>The test \<open>Date.now() - lock.timestamp < LOCK_TIMEOUT\<close>; a \<open>NaN\<close> age is not smaller.\<close>

definition age_below_timeout :: "platform \<Rightarrow> int \<Rightarrow> json option \<Rightarrow> bool" where
  "age_below_timeout E now ts =
     (case ToNumber E ts of None \<Rightarrow> False | Some t \<Rightarrow> of_int now - t < LOCK_TIMEOUT)"

definition stopHeartbeat :: "tab \<Rightarrow> tab" where
  "stopHeartbeat t = (if heartbeatTimer t \<noteq> None then t\<lparr>heartbeatTimer := None\<rparr> else t)"

definition startHeartbeat :: "tab \<Rightarrow> tab" where
  "startHeartbeat t =
     (let t1 = stopHeartbeat t in
      t1\<lparr>heartbeatTimer := Some (next_timer t1), next_timer := Suc (next_timer t1)\<rparr>)"

text \<open>
  \<open>acquireTabLock\<close>, given the identifier that \<open>crypto.randomUUID()\<close> returns and
  the two readings of the clock. The result is \<open>(acquired, lockId)\<close>.
\<close>

definition acquireTabLock_try ::
  "platform \<Rightarrow> string \<Rightarrow> int \<Rightarrow> int \<Rightarrow> tab \<Rightarrow> localStorage
     \<Rightarrow> (exn + bool \<times> string option) \<times> tab \<times> localStorage" where
  "acquireTabLock_try E uuid now1 now2 t s =
     (case getLockData E s of
        Inl e \<Rightarrow> (Inl e, t, s)
      | Inr existingLock \<Rightarrow>
          (case (if truthy existingLock then
                   (case get_prop existingLock ''timestamp'' of
                      Inl e \<Rightarrow> Inl e
                    | Inr ts \<Rightarrow> Inr (age_below_timeout E now1 ts))
                 else Inr False) of
             Inl e \<Rightarrow> (Inl e, t, s)
           | Inr True \<Rightarrow> (Inr (False, None), t, s)
           | Inr False \<Rightarrow>
               (let lockData = \<lparr>lockId = uuid, timestamp = now2\<rparr> in
                case setItem LOCK_KEY (JSON_stringify E (LockData_json lockData)) s of
                  (Inl e, s1) \<Rightarrow> (Inl e, t, s1)
                | (Inr u, s1) \<Rightarrow>
                    (case getLockData E s1 of
                       Inl e \<Rightarrow> (Inl e, t, s1)
                     | Inr verified \<Rightarrow>
                         (if get_prop_opt verified ''lockId'' \<noteq> Some (JStr uuid)
                          then (Inr (False, None), t, s1)
                          else
                            (let t1 = startHeartbeat (t\<lparr>currentLockId := Some uuid\<rparr>);
                                 t2 = t1\<lparr>beforeunload := beforeunload t1 @ [uuid]\<rparr>
                             in (Inr (True, Some uuid), t2, s1)))))))"

definition acquireTabLock ::
  "platform \<Rightarrow> string \<Rightarrow> int \<Rightarrow> int \<Rightarrow> tab \<Rightarrow> localStorage
     \<Rightarrow> (exn + bool \<times> string option) \<times> tab \<times> localStorage" where
  "acquireTabLock E uuid now1 now2 t s =
     (case acquireTabLock_try E uuid now1 now2 t s of
        (Inl error, t1, s1) \<Rightarrow> (Inr (False, None), t1, s1)
      | (Inr r, t1, s1) \<Rightarrow> (Inr r, t1, s1))"

definition releaseTabLock_try ::
  "platform \<Rightarrow> string \<Rightarrow> tab \<Rightarrow> localStorage \<Rightarrow> (exn + unit) \<times> tab \<times> localStorage" where
  "releaseTabLock_try E lid t s =
     (case getLockData E s of
        Inl e \<Rightarrow> (Inl e, t, s)
      | Inr existingLock \<Rightarrow>
          (if get_prop_opt existingLock ''lockId'' = Some (JStr lid) then
             (let s1 = removeItem LOCK_KEY s;
                  t1 = stopHeartbeat (t\<lparr>currentLockId := None\<rparr>);
                  t2 = (if broadcastChannel t1 then t1\<lparr>posted := posted t1 @ [lock_released]\<rparr> else t1)
              in (Inr (), t2, s1))
           else (Inr (), t, s)))"

definition releaseTabLock ::
  "platform \<Rightarrow> string \<Rightarrow> tab \<Rightarrow> localStorage \<Rightarrow> (exn + unit) \<times> tab \<times> localStorage" where
  "releaseTabLock E lid t s =
     (case releaseTabLock_try E lid t s of
        (Inl error, t1, s1) \<Rightarrow> (Inr (), t1, s1)
      | (Inr u, t1, s1) \<Rightarrow> (Inr u, t1, s1))"

definition isLockActive :: "platform \<Rightarrow> int \<Rightarrow> localStorage \<Rightarrow> exn + bool" where
  "isLockActive E now s =
     (case getLockData E s of
        Inl e \<Rightarrow> Inl e
      | Inr lock \<Rightarrow>
          (if \<not> truthy lock then Inr False
           else (case get_prop lock ''timestamp'' of
                   Inl e \<Rightarrow> Inl e
                 | Inr ts \<Rightarrow> Inr (age_below_timeout E now ts))))"


section \<open>The task store (stores/taskStore.ts)\<close>

text \<open>
  The state of the store is the task list it mirrors. Each action reads the
  document, builds the updated one, writes it with \<open>atomicWrite\<close> and, when the write
  did not throw, replaces the mirrored list; its \<open>catch\<close> block reports the error to
  the user and changes nothing more. The notifications are not part of the model,
  nor is the copy of the list that the state library keeps under a key of its own.
  Clock readings and the fresh identifier are arguments.
\<close>

record TaskStore =
  store_tasks :: "Task list"
  isLoading :: bool
  store_error :: "string option"

definition js_space :: "char \<Rightarrow> bool" where
  "js_space c = (c = CHR 0x20 \<or> c = CHR 0x09 \<or> c = CHR 0x0A \<or> c = CHR 0x0B \<or> c = CHR 0x0C \<or> c = CHR 0x0D)"

definition trim :: "string \<Rightarrow> string" where
  "trim s = rev (dropWhile js_space (rev (dropWhile js_space s)))"

text \<open>\<open>a || b\<close> on strings that may be \<open>null\<close> or missing.\<close>

definition or_else :: "string option \<Rightarrow> string \<Rightarrow> string" where
  "or_else a b = (if truthy_raw a then the a else b)"

text \<open>The outcome of the write inside an action: the list is replaced on success only.\<close>

definition commit :: "platform \<Rightarrow> AppData \<Rightarrow> TaskStore \<Rightarrow> localStorage \<Rightarrow> TaskStore \<times> localStorage" where
  "commit E updatedData st s =
     (case atomicWrite E updatedData s of
        (Inl error, s1) \<Rightarrow> (st, s1)
      | (Inr u, s1) \<Rightarrow> (st\<lparr>store_tasks := tasks updatedData\<rparr>, s1))"

definition addTask ::
  "platform \<Rightarrow> string \<Rightarrow> string \<Rightarrow> string \<Rightarrow> string \<Rightarrow> string \<Rightarrow> string \<Rightarrow> string option
     \<Rightarrow> TaskStore \<Rightarrow> localStorage \<Rightarrow> TaskStore \<times> localStorage" where
  "addTask E uuid created_now initial_now modified_now today descr date_arg st s =
     (let trimmedDescription = trim descr in
      if length trimmedDescription = 0 then (st, s)
      else if length trimmedDescription > 500 then (st, s)
      else
        (let newTask = \<lparr>task_id = uuid, description = trimmedDescription, completed = False,
                        createdAt = created_now, completedAt = None,
                        date = or_else date_arg today\<rparr>;
             currentData = (case readStorage E s of
                              Inr (Some d) \<Rightarrow> d
                            | other \<Rightarrow> createInitialAppData initial_now);
             updatedTasks = tasks currentData @ [newTask];
             updatedData = currentData
               \<lparr>tasks := updatedTasks,
                metadata := (metadata currentData)
                  \<lparr>lastModified := modified_now,
                   totalTaskCount := of_nat (length updatedTasks),
                   newestTaskDate := Some (date newTask),
                   oldestTaskDate := Some (or_else (oldestTaskDate (metadata currentData)) (date newTask))\<rparr>\<rparr>
         in commit E updatedData st s))"

text \<open>\<open>Partial<Task>\<close>: a field that is \<open>None\<close> is not in the update.\<close>

record TaskUpdates =
  new_id :: "string option"
  new_description :: "string option"
  new_completed :: "bool option"
  new_createdAt :: "string option"
  new_completedAt :: "string option option"
  new_date :: "string option"

definition apply_updates :: "TaskUpdates \<Rightarrow> Task \<Rightarrow> Task" where
  "apply_updates u t =
     \<lparr>task_id = (case new_id u of None \<Rightarrow> task_id t | Some v \<Rightarrow> v),
      description = (case new_description u of None \<Rightarrow> description t | Some v \<Rightarrow> v),
      completed = (case new_completed u of None \<Rightarrow> completed t | Some v \<Rightarrow> v),
      createdAt = (case new_createdAt u of None \<Rightarrow> createdAt t | Some v \<Rightarrow> v),
      completedAt = (case new_completedAt u of None \<Rightarrow> completedAt t | Some v \<Rightarrow> v),
      date = (case new_date u of None \<Rightarrow> date t | Some v \<Rightarrow> v)\<rparr>"

definition updateTask ::
  "platform \<Rightarrow> string \<Rightarrow> string \<Rightarrow> TaskUpdates \<Rightarrow> TaskStore \<Rightarrow> localStorage \<Rightarrow> TaskStore \<times> localStorage" where
  "updateTask E modified_now tid updates st s =
     (case readStorage E s of
        Inr (Some currentData) \<Rightarrow>
          (let updatedTasks = map (\<lambda>task. if task_id task = tid then apply_updates updates task else task)
                                  (tasks currentData);
               updatedData = currentData
                 \<lparr>tasks := updatedTasks,
                  metadata := (metadata currentData)\<lparr>lastModified := modified_now\<rparr>\<rparr>
           in commit E updatedData st s)
      | other \<Rightarrow> (st, s))"

definition deleteTask ::
  "platform \<Rightarrow> string \<Rightarrow> string \<Rightarrow> TaskStore \<Rightarrow> localStorage \<Rightarrow> TaskStore \<times> localStorage" where
  "deleteTask E modified_now tid st s =
     (case readStorage E s of
        Inr (Some currentData) \<Rightarrow>
          (let updatedTasks = filter (\<lambda>task. task_id task \<noteq> tid) (tasks currentData);
               updatedData = currentData
                 \<lparr>tasks := updatedTasks,
                  metadata := (metadata currentData)
                    \<lparr>lastModified := modified_now,
                     totalTaskCount := of_nat (length updatedTasks)\<rparr>\<rparr>
           in commit E updatedData st s)
      | other \<Rightarrow> (st, s))"

definition toggleTaskCompletion ::
  "platform \<Rightarrow> string \<Rightarrow> string \<Rightarrow> string \<Rightarrow> TaskStore \<Rightarrow> localStorage \<Rightarrow> TaskStore \<times> localStorage" where
  "toggleTaskCompletion E completed_now modified_now tid st s =
     (case readStorage E s of
        Inr (Some currentData) \<Rightarrow>
          (let updatedTasks =
                 map (\<lambda>task. if task_id task = tid
                              then task\<lparr>completed := \<not> completed task,
                                        completedAt := (if \<not> completed task then Some completed_now else None)\<rparr>
                              else task)
                     (tasks currentData);
               updatedData = currentData
                 \<lparr>tasks := updatedTasks,
                  metadata := (metadata currentData)\<lparr>lastModified := modified_now\<rparr>\<rparr>
           in commit E updatedData st s)
      | other \<Rightarrow> (st, s))"

definition bulkDeleteCompleted ::
  "platform \<Rightarrow> string \<Rightarrow> TaskStore \<Rightarrow> localStorage \<Rightarrow> TaskStore \<times> localStorage" where
  "bulkDeleteCompleted E modified_now st s =
     (case readStorage E s of
        Inr (Some currentData) \<Rightarrow>
          (let updatedTasks = filter (\<lambda>task. \<not> completed task) (tasks currentData);
               updatedData = currentData
                 \<lparr>tasks := updatedTasks,
                  metadata := (metadata currentData)
                    \<lparr>lastModified := modified_now,
                     totalTaskCount := of_nat (length updatedTasks)\<rparr>\<rparr>
           in commit E updatedData st s)
      | other \<Rightarrow> (st, s))"

text \<open>
  What the task list computes for the cached fields of the metadata: the number
  of tasks and the least and greatest task date, \<open>null\<close> when there is no task.
  Dates in the form \<open>YYYY-MM-DD\<close> are ordered as strings.
\<close>

fun string_le :: "string \<Rightarrow> string \<Rightarrow> bool" where
  "string_le [] ys = True"
| "string_le (x # xs) [] = False"
| "string_le (x # xs) (y # ys) =
     (if x = y then string_le xs ys else (of_char x :: nat) < of_char y)"

fun least_date :: "Task list \<Rightarrow> string option" where
  "least_date [] = None"
| "least_date (t # ts) =
     (case least_date ts of
        None \<Rightarrow> Some (date t)
      | Some d \<Rightarrow> Some (if string_le (date t) d then date t else d))"

fun greatest_date :: "Task list \<Rightarrow> string option" where
  "greatest_date [] = None"
| "greatest_date (t # ts) =
     (case greatest_date ts of
        None \<Rightarrow> Some (date t)
      | Some d \<Rightarrow> Some (if string_le d (date t) then date t else d))"

definition metadata_consistent :: "AppData \<Rightarrow> bool" where
  "metadata_consistent d =
     (totalTaskCount (metadata d) = of_nat (length (tasks d)) \<and>
      oldestTaskDate (metadata d) = least_date (tasks d) \<and>
      newestTaskDate (metadata d) = greatest_date (tasks d))"

section \<open>An executable host\<close>

text \<open>
  One instance of \<open>platform\<close>, on which the model runs on concrete stores: a JSON
  printer and parser, the \<open>uuid\<close> pattern (five groups of 8, 4, 4, 4 and 12
  hexadecimal digits), the \<open>datetime\<close> pattern
  \<open>YYYY-MM-DDTHH:MM:SS\<close>, an optional fraction, \<open>Z\<close>, and a numeric coercion that
  reads decimal literals. The general theorems below hold for every platform.
\<close>

definition digit_char :: "nat \<Rightarrow> char" where
  "digit_char n = ''0123456789'' ! n"

fun digits_of :: "nat \<Rightarrow> string" where
  "digits_of n = (if n < 10 then [digit_char n] else digits_of (n div 10) @ [digit_char (n mod 10)])"

declare digits_of.simps [simp del]

fun fraction_digits :: "nat \<Rightarrow> real \<Rightarrow> string" where
  "fraction_digits 0 x = []"
| "fraction_digits (Suc n) x =
     (if x = 0 then []
      else digit_char (nat \<lfloor>x * 10\<rfloor>) # fraction_digits n (x * 10 - of_int \<lfloor>x * 10\<rfloor>))"

definition number_string :: "real \<Rightarrow> string" where
  "number_string x =
     (if x < 0 then ''-'' else []) @ digits_of (nat \<lfloor>\<bar>x\<bar>\<rfloor>) @
     (if \<bar>x\<bar> = of_int \<lfloor>\<bar>x\<bar>\<rfloor> then [] else ''.'' @ fraction_digits 17 (\<bar>x\<bar> - of_int \<lfloor>\<bar>x\<bar>\<rfloor>))"

definition hex_char :: "nat \<Rightarrow> char" where
  "hex_char n = ''0123456789abcdef'' ! n"

definition quote_char :: "char \<Rightarrow> string" where
  "quote_char c =
     (if c = CHR 0x22 then [CHR 0x5C, CHR 0x22]
      else if c = CHR 0x5C then [CHR 0x5C, CHR 0x5C]
      else if c = CHR 0x08 then [CHR 0x5C, CHR ''b'']
      else if c = CHR 0x09 then [CHR 0x5C, CHR ''t'']
      else if c = CHR 0x0A then [CHR 0x5C, CHR ''n'']
      else if c = CHR 0x0C then [CHR 0x5C, CHR ''f'']
      else if c = CHR 0x0D then [CHR 0x5C, CHR ''r'']
      else if (of_char c :: nat) < 32 then
        [CHR 0x5C, CHR ''u'', CHR ''0'', CHR ''0'', hex_char (of_char c div 16), hex_char (of_char c mod 16)]
      else [c])"

definition quote_string :: "string \<Rightarrow> string" where
  "quote_string s = [CHR 0x22] @ concat (map quote_char s) @ [CHR 0x22]"

fun join_commas :: "string list \<Rightarrow> string" where
  "join_commas [] = []"
| "join_commas [x] = x"
| "join_commas (x # y # ys) = x @ '','' @ join_commas (y # ys)"

primrec json_stringify :: "json \<Rightarrow> string" where
  "json_stringify JNull = ''null''"
| "json_stringify (JBool b) = (if b then ''true'' else ''false'')"
| "json_stringify (JNum x) = number_string x"
| "json_stringify (JStr s) = quote_string s"
| "json_stringify (JArr xs) = ''['' @ join_commas (map json_stringify xs) @ '']''"
| "json_stringify (JObj kvs) =
     ''{'' @ join_commas (map (\<lambda>(k, v). quote_string k @ '':'' @ v)
                              (map (map_prod (\<lambda>k. k) json_stringify) kvs)) @ ''}''"

datatype token = TLBrace | TRBrace | TLBrack | TRBrack | TColon | TComma
  | TString string | TNumber real | TLit json

definition whitespace :: "char \<Rightarrow> bool" where
  "whitespace c = (c = CHR 0x20 \<or> c = CHR 0x09 \<or> c = CHR 0x0A \<or> c = CHR 0x0D)"

definition hex_value :: "char \<Rightarrow> nat option" where
  "hex_value c = map_of (zip ''0123456789abcdefABCDEF'' ([0..<16] @ [10..<16])) c"

definition unescape :: "char \<Rightarrow> char option" where
  "unescape e = map_of
     [(CHR 0x22, CHR 0x22), (CHR 0x5C, CHR 0x5C), (CHR ''/'', CHR ''/''), (CHR ''b'', CHR 0x08),
      (CHR ''f'', CHR 0x0C), (CHR ''n'', CHR 0x0A), (CHR ''r'', CHR 0x0D), (CHR ''t'', CHR 0x09)] e"

text \<open>
  The characters of a string literal after its opening quote, and the rest of
  the input after its closing quote. Of the \<open>\u\<close> escapes, those of one byte are
  read.
\<close>

fun lex_string :: "string \<Rightarrow> string \<Rightarrow> (string \<times> string) option" where
  "lex_string acc [] = None"
| "lex_string acc (c # cs) =
     (if c = CHR 0x22 then Some (rev acc, cs)
      else if c = CHR 0x5C then
        (case cs of
           [] \<Rightarrow> None
         | e # cs1 \<Rightarrow>
             (if e = CHR ''u'' then
                (case cs1 of
                   a # b # h # l # cs2 \<Rightarrow>
                     (if a = CHR ''0'' \<and> b = CHR ''0'' then
                        (case (hex_value h, hex_value l) of
                           (Some x, Some y) \<Rightarrow> lex_string (char_of (16 * x + y) # acc) cs2
                         | other \<Rightarrow> None)
                      else None)
                 | other \<Rightarrow> None)
              else (case unescape e of None \<Rightarrow> None | Some x \<Rightarrow> lex_string (x # acc) cs1)))
      else if (of_char c :: nat) < 32 then None
      else lex_string (c # acc) cs)"

definition digits_value :: "string \<Rightarrow> nat" where
  "digits_value ds = foldl (\<lambda>n c. 10 * n + (of_char c - 48)) 0 ds"

fun span_digits :: "string \<Rightarrow> string \<Rightarrow> string \<times> string" where
  "span_digits acc [] = (rev acc, [])"
| "span_digits acc (c # cs) = (if digit c then span_digits (c # acc) cs else (rev acc, c # cs))"

fun lex_sign :: "string \<Rightarrow> bool \<times> string" where
  "lex_sign [] = (False, [])"
| "lex_sign (c # cs) = (if c = CHR ''-'' then (True, cs) else (False, c # cs))"

fun lex_fraction :: "string \<Rightarrow> (string \<times> string) option" where
  "lex_fraction [] = Some ([], [])"
| "lex_fraction (c # cs) =
     (if c = CHR ''.'' then
        (case span_digits [] cs of (fs, rest) \<Rightarrow> if fs = [] then None else Some (fs, rest))
      else Some ([], c # cs))"

fun lex_exponent :: "string \<Rightarrow> (int \<times> string) option" where
  "lex_exponent [] = Some (0, [])"
| "lex_exponent (c # cs) =
     (if c = CHR ''e'' \<or> c = CHR ''E'' then
        (case (case cs of
                 [] \<Rightarrow> (False, [])
               | g # r \<Rightarrow> if g = CHR ''-'' then (True, r)
                          else if g = CHR ''+'' then (False, r) else (False, g # r)) of
           (eneg, cs1) \<Rightarrow>
             (case span_digits [] cs1 of
                (es, rest) \<Rightarrow>
                  if es = [] then None
                  else Some (if eneg then - int (digits_value es) else int (digits_value es), rest)))
      else Some (0, c # cs))"

definition number_value :: "bool \<Rightarrow> string \<Rightarrow> string \<Rightarrow> int \<Rightarrow> real" where
  "number_value neg ds fs e =
     (if neg then -1 else 1) * (of_nat (digits_value ds) + of_nat (digits_value fs) / 10 ^ length fs)
       * (if e < 0 then 1 / 10 ^ nat (- e) else 10 ^ nat e)"

text \<open>A JSON number at the head of the input: sign, integer part, fraction, exponent.\<close>

definition lex_number :: "string \<Rightarrow> (real \<times> string) option" where
  "lex_number cs =
     (case lex_sign cs of
        (neg, cs1) \<Rightarrow>
          (case span_digits [] cs1 of
             (ds, cs2) \<Rightarrow>
               (if ds = [] \<or> (1 < length ds \<and> take 1 ds = ''0'') then None
                else
                  (case lex_fraction cs2 of
                     None \<Rightarrow> None
                   | Some (fs, cs3) \<Rightarrow>
                       (case lex_exponent cs3 of
                          None \<Rightarrow> None
                        | Some (e, cs4) \<Rightarrow> Some (number_value neg ds fs e, cs4))))))"

text \<open>The tokens of a text; the first argument bounds the number of steps.\<close>

fun tokenize :: "string \<Rightarrow> string \<Rightarrow> token list option" where
  "tokenize fuel [] = Some []"
| "tokenize [] (c # cs) = None"
| "tokenize (f # fuel) (c # cs) =
     (if whitespace c then tokenize fuel cs
      else if c = CHR ''{'' then map_option (Cons TLBrace) (tokenize fuel cs)
      else if c = CHR ''}'' then map_option (Cons TRBrace) (tokenize fuel cs)
      else if c = CHR ''['' then map_option (Cons TLBrack) (tokenize fuel cs)
      else if c = CHR '']'' then map_option (Cons TRBrack) (tokenize fuel cs)
      else if c = CHR '':'' then map_option (Cons TColon) (tokenize fuel cs)
      else if c = CHR '','' then map_option (Cons TComma) (tokenize fuel cs)
      else if c = CHR 0x22 then
        (case lex_string [] cs of
           None \<Rightarrow> None
         | Some (str, rest) \<Rightarrow> map_option (Cons (TString str)) (tokenize fuel rest))
      else if take 4 (c # cs) = ''true'' then
        map_option (Cons (TLit (JBool True))) (tokenize fuel (drop 3 cs))
      else if take 5 (c # cs) = ''false'' then
        map_option (Cons (TLit (JBool False))) (tokenize fuel (drop 4 cs))
      else if take 4 (c # cs) = ''null'' then
        map_option (Cons (TLit JNull)) (tokenize fuel (drop 3 cs))
      else
        (case lex_number (c # cs) of
           None \<Rightarrow> None
         | Some (x, rest) \<Rightarrow> map_option (Cons (TNumber x)) (tokenize fuel rest)))"

text \<open>
  A member in front of the later members of an object: the key keeps its first
  place and takes the value of its last occurrence.
\<close>

definition add_member :: "string \<Rightarrow> json \<Rightarrow> (string \<times> json) list \<Rightarrow> (string \<times> json) list" where
  "add_member k v kvs =
     (k, (case map_of kvs k of None \<Rightarrow> v | Some w \<Rightarrow> w)) # filter (\<lambda>p. fst p \<noteq> k) kvs"

fun parse_value :: "token list \<Rightarrow> token list \<Rightarrow> (json \<times> token list) option"
  and parse_elements :: "token list \<Rightarrow> token list \<Rightarrow> (json list \<times> token list) option"
  and parse_members :: "token list \<Rightarrow> token list \<Rightarrow> ((string \<times> json) list \<times> token list) option"
where
  "parse_value [] ts = None"
| "parse_value (f # fuel) ts =
     (case ts of
        TString s # r \<Rightarrow> Some (JStr s, r)
      | TNumber x # r \<Rightarrow> Some (JNum x, r)
      | TLit v # r \<Rightarrow> Some (v, r)
      | TLBrack # TRBrack # r \<Rightarrow> Some (JArr [], r)
      | TLBrack # r \<Rightarrow> map_option (\<lambda>(vs, r1). (JArr vs, r1)) (parse_elements fuel r)
      | TLBrace # TRBrace # r \<Rightarrow> Some (JObj [], r)
      | TLBrace # r \<Rightarrow> map_option (\<lambda>(kvs, r1). (JObj kvs, r1)) (parse_members fuel r)
      | other \<Rightarrow> None)"
| "parse_elements [] ts = None"
| "parse_elements (f # fuel) ts =
     (case parse_value fuel ts of
        None \<Rightarrow> None
      | Some (v, r) \<Rightarrow>
          (case r of
             TRBrack # r1 \<Rightarrow> Some ([v], r1)
           | TComma # r1 \<Rightarrow> map_option (\<lambda>(vs, r2). (v # vs, r2)) (parse_elements fuel r1)
           | other \<Rightarrow> None))"
| "parse_members [] ts = None"
| "parse_members (f # fuel) ts =
     (case ts of
        TString k # TColon # r \<Rightarrow>
          (case parse_value fuel r of
             None \<Rightarrow> None
           | Some (v, r1) \<Rightarrow>
               (case r1 of
                  TRBrace # r2 \<Rightarrow> Some ([(k, v)], r2)
                | TComma # r2 \<Rightarrow>
                    map_option (\<lambda>(kvs, r3). (add_member k v kvs, r3)) (parse_members fuel r2)
                | other \<Rightarrow> None))
      | other \<Rightarrow> None)"

definition json_parse :: "string \<Rightarrow> json option" where
  "json_parse raw =
     (case tokenize raw raw of
        None \<Rightarrow> None
      | Some ts \<Rightarrow>
          (case parse_value (TComma # ts) ts of
             Some (v, []) \<Rightarrow> Some v
           | other \<Rightarrow> None))"

definition hex_digit :: "char \<Rightarrow> bool" where
  "hex_digit c = (c \<in> set ''0123456789abcdefABCDEF'')"

definition hex_group :: "nat \<Rightarrow> string \<Rightarrow> bool" where
  "hex_group n s = (length s = n \<and> list_all hex_digit s)"

definition uuid_regex :: "string \<Rightarrow> bool" where
  "uuid_regex s =
     (hex_group 8 (take 8 s) \<and> take 1 (drop 8 s) = ''-'' \<and>
      hex_group 4 (take 4 (drop 9 s)) \<and> take 1 (drop 13 s) = ''-'' \<and>
      hex_group 4 (take 4 (drop 14 s)) \<and> take 1 (drop 18 s) = ''-'' \<and>
      hex_group 4 (take 4 (drop 19 s)) \<and> take 1 (drop 23 s) = ''-'' \<and>
      hex_group 12 (drop 24 s))"

fun time_regex :: "string \<Rightarrow> bool" where
  "time_regex (h1 # h2 # c1 # m1 # m2 # c2 # s1 # s2 # rest) =
     (digit h1 \<and> digit h2 \<and> c1 = CHR '':'' \<and> digit m1 \<and> digit m2 \<and> c2 = CHR '':'' \<and>
      digit s1 \<and> digit s2 \<and>
      (rest = ''Z'' \<or>
       (take 1 rest = ''.'' \<and> 2 < length rest \<and> last rest = CHR ''Z'' \<and>
        list_all digit (butlast (drop 1 rest)))))"
| "time_regex s = False"

definition datetime_regex :: "string \<Rightarrow> bool" where
  "datetime_regex s = (date_regex (take 10 s) \<and> take 1 (drop 10 s) = ''T'' \<and> time_regex (drop 11 s))"

fun decimal_to_number :: "json \<Rightarrow> real option" where
  "decimal_to_number (JStr s) =
     (if trim s = [] then Some 0
      else (case lex_number (trim s) of Some (x, []) \<Rightarrow> Some x | other \<Rightarrow> None))"
| "decimal_to_number (JArr []) = Some 0"
| "decimal_to_number v = None"

definition host :: platform where
  "host = \<lparr>JSON_parse = json_parse, JSON_stringify = json_stringify,
           zod_uuid = uuid_regex, zod_datetime = datetime_regex,
           ToNumber_other = decimal_to_number\<rparr>"

section \<open>Concrete documents and stores\<close>

text \<open>The inputs on which the model is run in the examples below.\<close>

definition quota :: exn where
  "quota = DOMException ''QuotaExceededError''"

definition no_faults :: "nat \<Rightarrow> exn option" where
  "no_faults n = None"

definition fault_at :: "nat \<Rightarrow> nat \<Rightarrow> exn option" where
  "fault_at i n = (if n = i then Some quota else None)"


definition store_empty :: localStorage where
  "store_empty = \<lparr>items = (\<lambda>k. None), faults = no_faults, writes = 0\<rparr>"

definition store_with :: "string \<Rightarrow> string \<Rightarrow> (nat \<Rightarrow> exn option) \<Rightarrow> localStorage" where
  "store_with k raw f = \<lparr>items = (\<lambda>k. None)(k := Some raw), faults = f, writes = 0\<rparr>"

definition task1 :: Task where
  "task1 = \<lparr>task_id = ''123e4567-e89b-42d3-a456-426614174000'', description = ''Test task'',
             completed = False, createdAt = ''2025-10-10T08:00:00.000Z'', completedAt = None,
             date = ''2025-10-10''\<rparr>"

definition doc_empty :: AppData where
  "doc_empty = \<lparr>metadata = \<lparr>version = ''1.0.0'', lastModified = ''2025-10-10T08:00:00.000Z'',
                   totalTaskCount = 0, oldestTaskDate = None, newestTaskDate = None\<rparr>,
       tasks = [],
       preferences = \<lparr>lastViewedDate = ''2025-10-10'', sortOrder = newest_first\<rparr>\<rparr>"

definition doc_one :: AppData where
  "doc_one = \<lparr>metadata = \<lparr>version = ''1.0.0'', lastModified = ''2025-10-10T08:00:00.000Z'',
                   totalTaskCount = 1, oldestTaskDate = Some ''2025-10-10'',
                   newestTaskDate = Some ''2025-10-10''\<rparr>,
       tasks = [task1],
       preferences = \<lparr>lastViewedDate = ''2025-10-10'', sortOrder = newest_first\<rparr>\<rparr>"

definition doc_blank :: AppData where
  "doc_blank = doc_one\<lparr>tasks := [task1\<lparr>description := []\<rparr>]\<rparr>"

definition store_after_two_writes :: localStorage where
  "store_after_two_writes =
     snd (atomicWrite host doc_one (snd (atomicWrite host doc_empty store_empty)))"


text \<open>
  A stored document with a valid envelope and two items, the second of which
  breaks the item schema in four fields.
\<close>

definition raw_partial :: string where
  \<open>raw_partial = ''{"metadata":{"version":"1.0.0","lastModified":"2025-10-10T08:00:00.000Z","totalTaskCount":2,"oldestTaskDate":"2025-10-10","newestTaskDate":"2025-10-10"},"tasks":[{"id":"123e4567-e89b-42d3-a456-426614174000","description":"Test task","completed":false,"createdAt":"2025-10-10T08:00:00.000Z","completedAt":null,"date":"2025-10-10"},{"id":"invalid-uuid","description":"","completed":"not-boolean","createdAt":"invalid-date","completedAt":null,"date":"2025-10-10"}],"preferences":{"lastViewedDate":"2025-10-10","sortOrder":"newest-first"}}''\<close>

definition broken_item :: json where
  "broken_item = JObj
     [(''id'', JStr ''invalid-uuid''), (''description'', JStr []),
      (''completed'', JStr ''not-boolean''), (''createdAt'', JStr ''invalid-date''),
      (''completedAt'', JNull), (''date'', JStr ''2025-10-10'')]"

definition envelope_two :: StorageMetadata where
  "envelope_two = (metadata doc_one)\<lparr>totalTaskCount := 2\<rparr>"

definition id_A :: string where
  "id_A = ''0a1b2c3d-0000-4000-8000-00000000000a''"

definition id_B :: string where
  "id_B = ''0a1b2c3d-0000-4000-8000-00000000000b''"

definition tab_fresh :: tab where
  "tab_fresh = \<lparr>currentLockId = None, heartbeatTimer = None, broadcastChannel = False,
                next_timer = 0, beforeunload = [], posted = []\<rparr>"



definition store_lock_garbage :: localStorage where
  "store_lock_garbage = store_with LOCK_KEY ''{lockId: not json'' no_faults"

text \<open>
  A store that holds \<open>doc_one\<close>, the task store that mirrors it, and the documents
  that deleting its task and adding an earlier task are found to leave behind.
\<close>

definition store_one :: localStorage where
  "store_one = store_with STORAGE_KEY (json_stringify (AppData_json doc_one)) no_faults"

definition tasks_one :: TaskStore where
  "tasks_one = \<lparr>store_tasks = [task1], isLoading = False, store_error = None\<rparr>"

definition doc_after_delete :: AppData where
  "doc_after_delete =
     \<lparr>metadata = \<lparr>version = ''1.0.0'', lastModified = ''2025-10-11T09:00:00.000Z'',
                   totalTaskCount = 0, oldestTaskDate = Some ''2025-10-10'',
                   newestTaskDate = Some ''2025-10-10''\<rparr>,
      tasks = [],
      preferences = \<lparr>lastViewedDate = ''2025-10-10'', sortOrder = newest_first\<rparr>\<rparr>"

definition task2 :: Task where
  "task2 = \<lparr>task_id = id_B, description = ''Earlier'', completed = False,
             createdAt = ''2025-10-11T09:00:00.000Z'', completedAt = None,
             date = ''2025-10-01''\<rparr>"

definition doc_after_add :: AppData where
  "doc_after_add =
     \<lparr>metadata = \<lparr>version = ''1.0.0'', lastModified = ''2025-10-11T09:00:00.000Z'',
                   totalTaskCount = 2, oldestTaskDate = Some ''2025-10-10'',
                   newestTaskDate = Some ''2025-10-01''\<rparr>,
      tasks = [task1, task2],
      preferences = \<lparr>lastViewedDate = ''2025-10-10'', sortOrder = newest_first\<rparr>\<rparr>"

section \<open>Notions used in the statements\<close>

text \<open>The identifier of the lock record in the store, as \<open>getLockData\<close> reads it.\<close>

definition stored_lockId :: "platform \<Rightarrow> localStorage \<Rightarrow> json option" where
  "stored_lockId E s = get_prop_opt (projr (getLockData E s)) ''lockId''"

section \<open>Basic facts\<close>

lemma keys_distinct:
  "STORAGE_KEY \<noteq> BACKUP_KEY" "BACKUP_KEY \<noteq> STORAGE_KEY"
  "LOCK_KEY \<noteq> STORAGE_KEY" "LOCK_KEY \<noteq> BACKUP_KEY"
  by (simp_all add: STORAGE_KEY_def BACKUP_KEY_def LOCK_KEY_def)

lemma readStorage_items:
  "items s STORAGE_KEY = items s' STORAGE_KEY \<Longrightarrow> readStorage E s = readStorage E s'"
  by (simp add: readStorage_def readStorage_try_def getItem_def)

lemma readStorage_Some:
  assumes "readStorage E s = Inr (Some P)"
  obtains raw where "items s STORAGE_KEY = Some raw" "raw \<noteq> []"
  using assms
  by (cases "items s STORAGE_KEY")
     (auto simp: readStorage_def readStorage_try_def getItem_def split: if_splits option.splits)

lemma getLockData_items:
  "items s LOCK_KEY = items s' LOCK_KEY \<Longrightarrow> getLockData E s = getLockData E s'"
  by (simp add: getLockData_def getLockData_try_def getItem_def)

lemma getLockData_Inr: "getLockData E s = Inr (projr (getLockData E s))"
  by (simp add: getLockData_def split: sum.splits)

lemma getLockData_absent: "items s LOCK_KEY = None \<Longrightarrow> getLockData E s = Inr JNull"
  by (simp add: getLockData_def getLockData_try_def getItem_def)

lemma setItem_same_value:
  "items s k = Some v \<Longrightarrow> items (snd (setItem k v s)) k = Some v"
  by (simp add: setItem_def split: option.splits)

section \<open>Running the executable host\<close>

lemmas host_eval =
  host_def json_parse_def lex_number_def number_value_def digits_value_def whitespace_def
  digit_def unescape_def hex_value_def add_member_def
  quote_string_def quote_char_def number_string_def digits_of.simps digit_char_def
  uuid_regex_def datetime_regex_def hex_group_def hex_digit_def min_max_def any_string_def

lemmas doc_eval =
  AppData_json_def StorageMetadata_json_def UserPreferences_json_def Task_json_def
  nullable_json_def SortOrder_string_def

lemma string_doc_one: \<open>json_stringify (AppData_json doc_one) = ''{"metadata":{"version":"1.0.0","lastModified":"2025-10-10T08:00:00.000Z","totalTaskCount":1,"oldestTaskDate":"2025-10-10","newestTaskDate":"2025-10-10"},"tasks":[{"id":"123e4567-e89b-42d3-a456-426614174000","description":"Test task","completed":false,"createdAt":"2025-10-10T08:00:00.000Z","completedAt":null,"date":"2025-10-10"}],"preferences":{"lastViewedDate":"2025-10-10","sortOrder":"newest-first"}}''\<close>
  by (simp add: doc_one_def task1_def doc_eval host_eval)

lemma parse_doc_one: "json_parse (json_stringify (AppData_json doc_one)) = Some (AppData_json doc_one)"
  unfolding string_doc_one
  by (simp add: doc_one_def task1_def doc_eval host_eval)

lemma valid_doc_one: "AppDataSchema_safeParse host (AppData_json doc_one) = Some doc_one"
  by (simp add: doc_one_def task1_def doc_eval host_eval)

lemma string_doc_empty: \<open>json_stringify (AppData_json doc_empty) = ''{"metadata":{"version":"1.0.0","lastModified":"2025-10-10T08:00:00.000Z","totalTaskCount":0,"oldestTaskDate":null,"newestTaskDate":null},"tasks":[],"preferences":{"lastViewedDate":"2025-10-10","sortOrder":"newest-first"}}''\<close>
  by (simp add: doc_empty_def doc_eval host_eval)

lemma parse_doc_empty: "json_parse (json_stringify (AppData_json doc_empty)) = Some (AppData_json doc_empty)"
  unfolding string_doc_empty
  by (simp add: doc_empty_def doc_eval host_eval)

lemma valid_doc_empty: "AppDataSchema_safeParse host (AppData_json doc_empty) = Some doc_empty"
  by (simp add: doc_empty_def doc_eval host_eval)

lemma nonempty_doc_one: "json_stringify (AppData_json doc_one) \<noteq> []"
  by (simp add: string_doc_one)

lemma nonempty_doc_empty: "json_stringify (AppData_json doc_empty) \<noteq> []"
  by (simp add: string_doc_empty)

lemma readStorage_host:
  assumes "items s STORAGE_KEY = Some (json_stringify (AppData_json d))"
    and "json_stringify (AppData_json d) \<noteq> []"
    and "json_parse (json_stringify (AppData_json d)) = Some (AppData_json d)"
    and "AppDataSchema_safeParse host (AppData_json d) = Some d"
  shows "readStorage host s = Inr (Some d)"
proof -
  have "JSON_parse host (json_stringify (AppData_json d)) = Some (AppData_json d)"
    using assms(3) by (simp add: host_def)
  with assms(1,2,4) show ?thesis
    by (simp add: readStorage_def readStorage_try_def getItem_def)
qed

section \<open>Atomic writes\<close>

text \<open>
  Claim C1. Let the store hold a document that \<open>readStorage\<close> returns, and let
  \<open>atomicWrite\<close> be called with a valid document. If the \<open>setItem\<close> that takes the
  backup succeeds and the \<open>setItem\<close> that writes the primary key throws, then
  \<open>atomicWrite\<close> fails, the primary key holds what it held before, and \<open>readStorage\<close>
  afterwards returns the document it returned before the call.
\<close>

theorem atomicWrite_failure_keeps_document:
  assumes pre: "readStorage E s = Inr (Some P)"
    and valid: "AppDataSchema_safeParse E (AppData_json D) \<noteq> None"
    and backup_ok: "faults s (writes s) = None"
    and store_throws: "faults s (Suc (writes s)) = Some e"
  shows "isl (fst (atomicWrite E D s)) \<and>
         readStorage E (snd (atomicWrite E D s)) = Inr (Some P) \<and>
         items (snd (atomicWrite E D s)) STORAGE_KEY = items s STORAGE_KEY"
proof -
  from pre obtain raw where raw: "items s STORAGE_KEY = Some raw" "raw \<noteq> []"
    by (rule readStorage_Some)
  define s1 where "s1 = s\<lparr>items := (items s)(BACKUP_KEY := Some raw), writes := Suc (writes s)\<rparr>"
  define s2 where "s2 = s1\<lparr>writes := Suc (writes s1)\<rparr>"
  have tr: "atomicWrite_try E D s = (Inl e, s2)"
    using valid raw backup_ok store_throws
    by (auto simp: atomicWrite_try_def getItem_def setItem_def s1_def s2_def Let_def)
  have b: "items s2 BACKUP_KEY = Some raw" and p: "items s2 STORAGE_KEY = Some raw"
    using raw keys_distinct by (simp_all add: s1_def s2_def)
  have aw: "atomicWrite E D s =
      (case setItem STORAGE_KEY raw s2 of (Inl e2, s3) \<Rightarrow> (Inl e2, s3) | (Inr u, s3) \<Rightarrow> (Inl e, s3))"
    using tr b raw by (simp add: atomicWrite_def getItem_def)
  have kept: "items (snd (setItem STORAGE_KEY raw s2)) STORAGE_KEY = Some raw"
    using p by (rule setItem_same_value)
  have fails: "isl (fst (atomicWrite E D s))"
    by (simp add: aw split: prod.splits sum.splits)
  have same: "items (snd (atomicWrite E D s)) STORAGE_KEY = items s STORAGE_KEY"
    using kept raw by (auto simp: aw split: prod.splits sum.splits)
  from same have "readStorage E (snd (atomicWrite E D s)) = readStorage E s"
    by (rule readStorage_items)
  with pre fails same show ?thesis by simp
qed

theorem atomicWrite_failure_keeps_document_witness:
  "readStorage host (store_with STORAGE_KEY (json_stringify (AppData_json doc_one)) (fault_at 1))
     = Inr (Some doc_one) \<and>
   AppDataSchema_safeParse host (AppData_json doc_empty) \<noteq> None \<and>
   isl (fst (atomicWrite host doc_empty
     (store_with STORAGE_KEY (json_stringify (AppData_json doc_one)) (fault_at 1)))) \<and>
   readStorage host (snd (atomicWrite host doc_empty
     (store_with STORAGE_KEY (json_stringify (AppData_json doc_one)) (fault_at 1))))
     = Inr (Some doc_one)"
proof -
  let ?s = "store_with STORAGE_KEY (json_stringify (AppData_json doc_one)) (fault_at 1)"
  have h1: "readStorage host ?s = Inr (Some doc_one)"
    by (rule readStorage_host)
       (simp_all add: store_with_def nonempty_doc_one parse_doc_one valid_doc_one)
  have h2: "AppDataSchema_safeParse host (AppData_json doc_empty) \<noteq> None"
    by (simp add: valid_doc_empty)
  have h3: "faults ?s (writes ?s) = None"
    by (simp add: store_with_def fault_at_def)
  have h4: "faults ?s (Suc (writes ?s)) = Some quota"
    by (simp add: store_with_def fault_at_def)
  from atomicWrite_failure_keeps_document [OF h1 h2 h3 h4] h1 h2 show ?thesis
    by simp
qed

lemma z_array_items_roundtrip:
  "z_array_items E (map Task_json ts) = Some ts' \<Longrightarrow> ts' = ts"
proof (induction ts arbitrary: ts')
  case Nil
  then show ?case by simp
next
  case (Cons t ts)
  then show ?case
    by (auto simp: Task_json_def nullable_json_def split: option.splits if_splits)
qed

lemma StorageMetadataSchema_roundtrip:
  "StorageMetadataSchema E (Some (StorageMetadata_json m)) = Some m' \<Longrightarrow> m' = m"
  by (auto simp: StorageMetadata_json_def nullable_json_def split: option.splits if_splits)

lemma UserPreferencesSchema_roundtrip:
  "UserPreferencesSchema (Some (UserPreferences_json p)) = Some p' \<Longrightarrow> p' = p"
  by (cases "sortOrder p")
     (auto simp: UserPreferences_json_def SortOrder_string_def split: option.splits if_splits)

lemma AppDataSchema_roundtrip:
  assumes "AppDataSchema_safeParse E (AppData_json d) = Some d'"
  shows "d' = d"
proof -
  from assms obtain m ts p where
    m: "StorageMetadataSchema E (Some (StorageMetadata_json (metadata d))) = Some m" and
    ts: "z_array_items E (map Task_json (tasks d)) = Some ts" and
    p: "UserPreferencesSchema (Some (UserPreferences_json (preferences d))) = Some p" and
    d': "d' = \<lparr>metadata = m, tasks = ts, preferences = p\<rparr>"
    by (auto simp: AppData_json_def split: option.splits)
  from m have "m = metadata d" by (rule StorageMetadataSchema_roundtrip)
  moreover from ts have "ts = tasks d" by (rule z_array_items_roundtrip)
  moreover from p have "p = preferences d" by (rule UserPreferencesSchema_roundtrip)
  ultimately show ?thesis using d' by simp
qed

lemma atomicWrite_success_items:
  assumes "fst (atomicWrite E D s) = Inr ()"
  shows "items (snd (atomicWrite E D s)) STORAGE_KEY = Some (JSON_stringify E (AppData_json D))"
proof -
  obtain r s1 where tr: "atomicWrite_try E D s = (r, s1)"
    by (cases "atomicWrite_try E D s")
  with assms have r: "r = Inr ()" and aw: "atomicWrite E D s = (Inr (), s1)"
    by (auto simp: atomicWrite_def Let_def split: sum.splits if_splits prod.splits)
  from tr r have "getItem STORAGE_KEY s1 = Some (JSON_stringify E (AppData_json D))"
    by (auto simp: atomicWrite_try_def Let_def split: option.splits prod.splits sum.splits if_splits)
  with aw show ?thesis by (simp add: getItem_def)
qed

lemma atomicWrite_no_fault:
  assumes valid: "AppDataSchema_safeParse E (AppData_json D) \<noteq> None"
    and "faults s (writes s) = None" and "faults s (Suc (writes s)) = None"
  shows "fst (atomicWrite E D s) = Inr ()"
  using assms
  by (auto simp: atomicWrite_def atomicWrite_try_def getItem_def setItem_def Let_def
           split: option.splits)

text \<open>
  Claim C5. For a document that satisfies the schema and that the host's
  \<open>JSON.parse\<close> reads back from its \<open>JSON.stringify\<close> text: whenever \<open>atomicWrite\<close>
  returns normally, from whatever store, \<open>readStorage\<close> afterwards returns that
  document; and \<open>atomicWrite\<close> does return normally when the \<open>setItem\<close> calls it
  makes do not throw.
\<close>

theorem write_then_read:
  assumes valid: "AppDataSchema_safeParse E (AppData_json D) \<noteq> None"
    and text_nonempty: "JSON_stringify E (AppData_json D) \<noteq> []"
    and reads_back: "JSON_parse E (JSON_stringify E (AppData_json D)) = Some (AppData_json D)"
  shows "(fst (atomicWrite E D s) = Inr () \<longrightarrow>
            readStorage E (snd (atomicWrite E D s)) = Inr (Some D)) \<and>
         (faults s (writes s) = None \<and> faults s (Suc (writes s)) = None \<longrightarrow>
            fst (atomicWrite E D s) = Inr ())"
proof (intro conjI impI)
  assume ok: "fst (atomicWrite E D s) = Inr ()"
  from valid obtain d' where d': "AppDataSchema_safeParse E (AppData_json D) = Some d'"
    by blast
  then have "d' = D" by (rule AppDataSchema_roundtrip)
  with d' have v: "AppDataSchema_safeParse E (AppData_json D) = Some D" by simp
  from ok have "items (snd (atomicWrite E D s)) STORAGE_KEY = Some (JSON_stringify E (AppData_json D))"
    by (rule atomicWrite_success_items)
  with text_nonempty reads_back v show "readStorage E (snd (atomicWrite E D s)) = Inr (Some D)"
    by (simp add: readStorage_def readStorage_try_def getItem_def)
next
  assume "faults s (writes s) = None \<and> faults s (Suc (writes s)) = None"
  with valid show "fst (atomicWrite E D s) = Inr ()"
    by (simp add: atomicWrite_no_fault)
qed

theorem write_then_read_witness:
  "AppDataSchema_safeParse host (AppData_json doc_one) \<noteq> None \<and>
   JSON_stringify host (AppData_json doc_one) \<noteq> [] \<and>
   JSON_parse host (JSON_stringify host (AppData_json doc_one)) = Some (AppData_json doc_one) \<and>
   faults store_empty (writes store_empty) = None \<and>
   faults store_empty (Suc (writes store_empty)) = None \<and>
   fst (atomicWrite host doc_one store_empty) = Inr () \<and>
   readStorage host (snd (atomicWrite host doc_one store_empty)) = Inr (Some doc_one)"
proof -
  have h1: "AppDataSchema_safeParse host (AppData_json doc_one) \<noteq> None"
    by (simp add: valid_doc_one)
  have h2: "JSON_stringify host (AppData_json doc_one) \<noteq> []"
    using nonempty_doc_one by (simp add: host_def)
  have h3: "JSON_parse host (JSON_stringify host (AppData_json doc_one)) = Some (AppData_json doc_one)"
    using parse_doc_one by (simp add: host_def)
  have h4: "faults store_empty (writes store_empty) = None \<and>
            faults store_empty (Suc (writes store_empty)) = None"
    by (simp add: store_empty_def no_faults_def)
  from write_then_read [OF h1 h2 h3, of store_empty] h1 h2 h3 h4 show ?thesis
    by simp
qed

lemma host_fields:
  "JSON_parse host = json_parse" "JSON_stringify host = json_stringify"
  by (simp_all add: host_def)

lemma store_after_first_write:
  "snd (atomicWrite host doc_empty store_empty) =
     \<lparr>items = (\<lambda>k. None)(STORAGE_KEY := Some (json_stringify (AppData_json doc_empty))),
      faults = no_faults, writes = 1\<rparr>"
  by (simp add: atomicWrite_def atomicWrite_try_def getItem_def setItem_def Let_def
        store_empty_def no_faults_def valid_doc_empty host_fields)

lemma store_after_two_writes_eq:
  "store_after_two_writes =
     \<lparr>items = (\<lambda>k. None)(STORAGE_KEY := Some (json_stringify (AppData_json doc_one)),
                           BACKUP_KEY := Some (json_stringify (AppData_json doc_empty))),
      faults = no_faults, writes = 3\<rparr>"
  unfolding store_after_two_writes_def store_after_first_write
  using keys_distinct
  by (simp add: atomicWrite_def atomicWrite_try_def getItem_def setItem_def Let_def
        no_faults_def valid_doc_one host_fields nonempty_doc_empty fun_upd_twist)

lemma invalid_doc_blank: "AppDataSchema_safeParse host (AppData_json doc_blank) = None"
  by (simp add: doc_blank_def doc_one_def task1_def doc_eval host_eval)

text \<open>
  Claim C2, run on the code. After two successful writes the primary key holds
  the second document and the backup key the first. A call of \<open>atomicWrite\<close> with a
  document that fails the schema then throws, as the claim says, but its \<open>catch\<close>
  block copies the backup of the earlier transaction into the primary key: the
  store is not left as it was, and \<open>readStorage\<close> returns the first document.
\<close>

theorem invalid_write_restores_stale_backup:
  "readStorage host store_after_two_writes = Inr (Some doc_one) \<and>
   AppDataSchema_safeParse host (AppData_json doc_blank) = None \<and>
   fst (atomicWrite host doc_blank store_after_two_writes) = Inl (Error ''Invalid data structure'') \<and>
   readStorage host (snd (atomicWrite host doc_blank store_after_two_writes)) = Inr (Some doc_empty)"
proof -
  have before: "readStorage host store_after_two_writes = Inr (Some doc_one)"
    by (rule readStorage_host)
       (use keys_distinct in \<open>simp_all add: store_after_two_writes_eq nonempty_doc_one parse_doc_one valid_doc_one\<close>)
  have aw: "atomicWrite host doc_blank store_after_two_writes =
      (Inl (Error ''Invalid data structure''),
       store_after_two_writes
         \<lparr>items := (items store_after_two_writes)
                      (STORAGE_KEY := Some (json_stringify (AppData_json doc_empty))),
          writes := 4\<rparr>)"
    by (simp add: atomicWrite_def atomicWrite_try_def invalid_doc_blank getItem_def setItem_def
          store_after_two_writes_eq no_faults_def nonempty_doc_empty Let_def)
  have after: "readStorage host (snd (atomicWrite host doc_blank store_after_two_writes)) =
      Inr (Some doc_empty)"
    by (rule readStorage_host)
       (simp_all add: aw nonempty_doc_empty parse_doc_empty valid_doc_empty)
  from before invalid_doc_blank aw after show ?thesis by simp
qed

section \<open>Reading a partly corrupted document\<close>

lemma parse_raw_partial:
  "json_parse raw_partial =
     Some (JObj [(''metadata'', StorageMetadata_json envelope_two),
                 (''tasks'', JArr [Task_json task1, broken_item]),
                 (''preferences'', UserPreferences_json (preferences doc_one))])"
  by (simp add: raw_partial_def envelope_two_def broken_item_def doc_one_def task1_def
        doc_eval host_eval)

text \<open>
  Claim C3, run on the code. The stored document has a valid envelope, one valid
  item and one invalid item. \<open>readStorage\<close> returns \<open>null\<close> for it and
  \<open>validateStorage\<close> returns \<open>false\<close>: the valid item is not salvaged.
\<close>

theorem partial_corruption_rejected:
  "StorageMetadataSchema host (Some (StorageMetadata_json envelope_two)) = Some envelope_two \<and>
   UserPreferencesSchema (Some (UserPreferences_json (preferences doc_one))) = Some (preferences doc_one) \<and>
   TaskSchema host (Task_json task1) = Some task1 \<and>
   TaskSchema host broken_item = None \<and>
   readStorage host (store_with STORAGE_KEY raw_partial no_faults) = Inr None \<and>
   validateStorage host (store_with STORAGE_KEY raw_partial no_faults) = Inr False"
proof -
  have e: "StorageMetadataSchema host (Some (StorageMetadata_json envelope_two)) = Some envelope_two"
    by (simp add: envelope_two_def doc_one_def doc_eval host_eval)
  have p: "UserPreferencesSchema (Some (UserPreferences_json (preferences doc_one))) = Some (preferences doc_one)"
    by (simp add: doc_one_def doc_eval digit_def)
  have t: "TaskSchema host (Task_json task1) = Some task1"
    by (simp add: task1_def doc_eval host_eval)
  have b: "TaskSchema host broken_item = None"
    by (simp add: broken_item_def host_eval)
  have ne: "raw_partial \<noteq> []"
    by (simp add: raw_partial_def)
  have r: "readStorage host (store_with STORAGE_KEY raw_partial no_faults) = Inr None"
    using ne e p t b
    by (simp add: readStorage_def readStorage_try_def getItem_def store_with_def host_fields
          parse_raw_partial)
  have v: "validateStorage host (store_with STORAGE_KEY raw_partial no_faults) = Inr False"
    using ne e p t b
    by (simp add: validateStorage_def validateStorage_try_def getItem_def store_with_def host_fields
          parse_raw_partial)
  from e p t b r v show ?thesis by simp
qed

section \<open>Exceptions that reach the caller\<close>



section \<open>Acquiring the lock\<close>

lemma getLockData_corrupt:
  "items s LOCK_KEY = Some raw \<Longrightarrow> JSON_parse E raw = None \<Longrightarrow> getLockData E s = Inr JNull"
  by (simp add: getLockData_def getLockData_try_def getItem_def)

lemma acquireTabLock_unheld:
  assumes "getLockData E s = Inr JNull"
  shows "acquireTabLock E uuid now1 now2 t s =
     (case setItem LOCK_KEY (JSON_stringify E (LockData_json \<lparr>lockId = uuid, timestamp = now2\<rparr>)) s of
        (Inl e, s1) \<Rightarrow> (Inr (False, None), t, s1)
      | (Inr u, s1) \<Rightarrow>
          (if get_prop_opt (projr (getLockData E s1)) ''lockId'' \<noteq> Some (JStr uuid)
           then (Inr (False, None), t, s1)
           else (Inr (True, Some uuid),
                 (startHeartbeat (t\<lparr>currentLockId := Some uuid\<rparr>))
                   \<lparr>beforeunload := beforeunload (startHeartbeat (t\<lparr>currentLockId := Some uuid\<rparr>)) @ [uuid]\<rparr>,
                 s1)))"
proof -
  obtain r s1 where set: "setItem LOCK_KEY (JSON_stringify E (LockData_json \<lparr>lockId = uuid, timestamp = now2\<rparr>)) s = (r, s1)"
    by (cases "setItem LOCK_KEY (JSON_stringify E (LockData_json \<lparr>lockId = uuid, timestamp = now2\<rparr>)) s")
  obtain v where v: "getLockData E s1 = Inr v"
    using getLockData_Inr by blast
  from assms set v show ?thesis
    by (cases r) (simp_all add: acquireTabLock_def acquireTabLock_try_def Let_def)
qed

lemma getLockData_record:
  assumes "items s LOCK_KEY = Some raw" "raw \<noteq> []" "JSON_parse E raw = Some v"
  shows "getLockData E s = Inr v"
  using assms by (simp add: getLockData_def getLockData_try_def getItem_def)

lemma acquireTabLock_unheld_acquires:
  assumes null: "getLockData E s = Inr JNull"
    and ok: "faults s (writes s) = None"
    and ne: "JSON_stringify E (LockData_json \<lparr>lockId = uuid, timestamp = now2\<rparr>) \<noteq> []"
    and rb: "JSON_parse E (JSON_stringify E (LockData_json \<lparr>lockId = uuid, timestamp = now2\<rparr>)) =
        Some (LockData_json \<lparr>lockId = uuid, timestamp = now2\<rparr>)"
  shows "fst (acquireTabLock E uuid now1 now2 t s) = Inr (True, Some uuid) \<and>
      items (snd (snd (acquireTabLock E uuid now1 now2 t s))) LOCK_KEY =
        Some (JSON_stringify E (LockData_json \<lparr>lockId = uuid, timestamp = now2\<rparr>))"
proof -
  let ?text = "JSON_stringify E (LockData_json \<lparr>lockId = uuid, timestamp = now2\<rparr>)"
  let ?s1 = "s\<lparr>items := (items s)(LOCK_KEY := Some ?text), writes := Suc (writes s)\<rparr>"
  have "getLockData E ?s1 = Inr (LockData_json \<lparr>lockId = uuid, timestamp = now2\<rparr>)"
    using ne rb by (intro getLockData_record [where raw = ?text]) simp_all
  with ok show ?thesis
    by (simp add: acquireTabLock_unheld [OF null] setItem_def LockData_json_def)
qed

text \<open>
  Claim C10. When the lock key holds a text that does not parse, \<open>getLockData\<close>
  returns \<open>null\<close>, \<open>isLockActive\<close> returns \<open>false\<close>, and \<open>acquireTabLock\<close> neither
  throws nor treats the lock as held: it gives the result it gives on the store
  without the record, and when its \<open>setItem\<close> does not throw and the host reads the
  fresh record back, it acquires the lock and the key holds the fresh record.
\<close>

theorem corrupted_lock_is_unheld:
  assumes held: "items s LOCK_KEY = Some raw"
    and corrupt: "JSON_parse E raw = None"
  shows "getLockData E s = Inr JNull \<and>
         isLockActive E now s = Inr False \<and>
         \<not> isl (fst (acquireTabLock E uuid now1 now2 t s)) \<and>
         fst (acquireTabLock E uuid now1 now2 t s) =
           fst (acquireTabLock E uuid now1 now2 t (removeItem LOCK_KEY s)) \<and>
         (faults s (writes s) = None \<and>
          JSON_stringify E (LockData_json \<lparr>lockId = uuid, timestamp = now2\<rparr>) \<noteq> [] \<and>
          JSON_parse E (JSON_stringify E (LockData_json \<lparr>lockId = uuid, timestamp = now2\<rparr>)) =
            Some (LockData_json \<lparr>lockId = uuid, timestamp = now2\<rparr>) \<longrightarrow>
          fst (acquireTabLock E uuid now1 now2 t s) = Inr (True, Some uuid) \<and>
          items (snd (snd (acquireTabLock E uuid now1 now2 t s))) LOCK_KEY =
            Some (JSON_stringify E (LockData_json \<lparr>lockId = uuid, timestamp = now2\<rparr>)))"
proof -
  let ?text = "JSON_stringify E (LockData_json \<lparr>lockId = uuid, timestamp = now2\<rparr>)"
  from held corrupt have null: "getLockData E s = Inr JNull"
    by (rule getLockData_corrupt)
  have null': "getLockData E (removeItem LOCK_KEY s) = Inr JNull"
    by (rule getLockData_absent) (simp add: removeItem_def)
  have active: "isLockActive E now s = Inr False"
    using null by (simp add: isLockActive_def)
  have total: "\<not> isl (fst (acquireTabLock E uuid now1 now2 t s))"
    by (simp add: acquireTabLock_def split: prod.splits sum.splits)
  have same: "fst (acquireTabLock E uuid now1 now2 t s) =
      fst (acquireTabLock E uuid now1 now2 t (removeItem LOCK_KEY s))"
  proof (cases "faults s (writes s)")
    case None
    obtain s1 where s1: "setItem LOCK_KEY ?text s = (Inr (), s1)" "items s1 LOCK_KEY = Some ?text"
      using None by (simp add: setItem_def)
    obtain s2 where s2: "setItem LOCK_KEY ?text (removeItem LOCK_KEY s) = (Inr (), s2)"
        "items s2 LOCK_KEY = Some ?text"
      using None by (simp add: setItem_def removeItem_def)
    from s1(2) s2(2) have "getLockData E s1 = getLockData E s2"
      by (intro getLockData_items) simp
    with s1(1) s2(1) show ?thesis
      by (simp add: acquireTabLock_unheld [OF null] acquireTabLock_unheld [OF null'])
  next
    case (Some e)
    obtain s1 where s1: "setItem LOCK_KEY ?text s = (Inl e, s1)"
      using Some by (simp add: setItem_def)
    obtain s2 where s2: "setItem LOCK_KEY ?text (removeItem LOCK_KEY s) = (Inl e, s2)"
      using Some by (simp add: setItem_def removeItem_def)
    from s1 s2 show ?thesis
      by (simp add: acquireTabLock_unheld [OF null] acquireTabLock_unheld [OF null'])
  qed
  note acquires = acquireTabLock_unheld_acquires [OF null, of uuid now2 now1 t]
  from null active total same acquires show ?thesis by blast
qed

theorem corrupted_lock_is_unheld_witness:
  "items store_lock_garbage LOCK_KEY = Some ''{lockId: not json'' \<and>
   JSON_parse host ''{lockId: not json'' = None \<and>
   faults store_lock_garbage (writes store_lock_garbage) = None \<and>
   JSON_stringify host (LockData_json \<lparr>lockId = id_A, timestamp = 1760083200000\<rparr>) \<noteq> [] \<and>
   JSON_parse host (JSON_stringify host (LockData_json \<lparr>lockId = id_A, timestamp = 1760083200000\<rparr>)) =
     Some (LockData_json \<lparr>lockId = id_A, timestamp = 1760083200000\<rparr>) \<and>
   getLockData host store_lock_garbage = Inr JNull \<and>
   isLockActive host 1760083200000 store_lock_garbage = Inr False \<and>
   fst (acquireTabLock host id_A 1760083200000 1760083200000 tab_fresh store_lock_garbage) =
     Inr (True, Some id_A) \<and>
   items (snd (snd (acquireTabLock host id_A 1760083200000 1760083200000 tab_fresh store_lock_garbage)))
     LOCK_KEY = Some (JSON_stringify host (LockData_json \<lparr>lockId = id_A, timestamp = 1760083200000\<rparr>))"
proof -
  have h1: "items store_lock_garbage LOCK_KEY = Some ''{lockId: not json''"
    by (simp add: store_lock_garbage_def store_with_def)
  have h2: "JSON_parse host ''{lockId: not json'' = None"
    by (simp add: host_eval)
  have h3: "faults store_lock_garbage (writes store_lock_garbage) = None"
    by (simp add: store_lock_garbage_def store_with_def no_faults_def)
  have str: \<open>json_stringify (LockData_json \<lparr>lockId = id_A, timestamp = 1760083200000\<rparr>) =
      ''{"lockId":"0a1b2c3d-0000-4000-8000-00000000000a","timestamp":1760083200000}''\<close>
    by (simp add: LockData_json_def id_A_def host_eval)
  have h4: "JSON_stringify host (LockData_json \<lparr>lockId = id_A, timestamp = 1760083200000\<rparr>) \<noteq> []"
    by (simp add: host_fields str)
  have h5: "JSON_parse host (JSON_stringify host (LockData_json \<lparr>lockId = id_A, timestamp = 1760083200000\<rparr>)) =
      Some (LockData_json \<lparr>lockId = id_A, timestamp = 1760083200000\<rparr>)"
    unfolding host_fields str by (simp add: LockData_json_def id_A_def host_eval)
  from corrupted_lock_is_unheld [OF h1 h2, of 1760083200000 id_A 1760083200000 1760083200000 tab_fresh]
    h1 h2 h3 h4 h5
  show ?thesis by blast
qed

lemma acquireTabLock_acquired:
  assumes "fst (acquireTabLock E uuid now1 now2 t s) = Inr (True, lid)"
  shows "lid = Some uuid \<and>
         items (snd (snd (acquireTabLock E uuid now1 now2 t s))) LOCK_KEY =
           Some (JSON_stringify E (LockData_json \<lparr>lockId = uuid, timestamp = now2\<rparr>)) \<and>
         stored_lockId E (snd (snd (acquireTabLock E uuid now1 now2 t s))) = Some (JStr uuid)"
proof -
  let ?text = "JSON_stringify E (LockData_json \<lparr>lockId = uuid, timestamp = now2\<rparr>)"
  obtain r t1 s1 where tr: "acquireTabLock_try E uuid now1 now2 t s = (r, t1, s1)"
    by (cases "acquireTabLock_try E uuid now1 now2 t s")
  with assms have r: "r = Inr (True, lid)" and aw: "acquireTabLock E uuid now1 now2 t s = (r, t1, s1)"
    by (auto simp: acquireTabLock_def split: sum.splits)
  obtain r2 s2 where set: "setItem LOCK_KEY ?text s = (r2, s2)"
    by (cases "setItem LOCK_KEY ?text s")
  obtain v where v: "getLockData E s = Inr v"
    using getLockData_Inr by blast
  obtain w where w: "getLockData E s2 = Inr w"
    using getLockData_Inr by blast
  from tr r v w set have facts: "lid = Some uuid \<and> s1 = s2 \<and> r2 = Inr () \<and>
      get_prop_opt w ''lockId'' = Some (JStr uuid)"
    by (auto simp: acquireTabLock_try_def Let_def split: sum.splits bool.splits if_splits)
  with set have "items s2 LOCK_KEY = Some ?text"
    by (auto simp: setItem_def split: option.splits)
  with facts aw w show ?thesis
    by (simp add: stored_lockId_def)
qed

lemma acquireTabLock_held:
  assumes "getLockData E s = Inr (LockData_json \<lparr>lockId = holder, timestamp = ts\<rparr>)"
    and "of_int now1 - of_int ts < LOCK_TIMEOUT"
  shows "acquireTabLock E uuid now1 now2 t s = (Inr (False, None), t, s)"
  using assms
  by (simp add: acquireTabLock_def acquireTabLock_try_def LockData_json_def age_below_timeout_def)

text \<open>
  Claim C4. Let the acquisition of a first tab succeed, writing a record with a
  fresh identifier and the time of its clock, which the host reads back from its
  text. An acquisition by a second tab on the resulting store, at a time when the
  age of the record is below the timeout, returns not-acquired with no
  identifier and leaves the store, the record of the first tab included, and its
  own state as they were.
\<close>

theorem lock_is_exclusive:
  assumes first: "fst (acquireTabLock E id1 now1 now2 t1 s) = Inr (True, Some id1)"
    and reads_back: "JSON_parse E (JSON_stringify E (LockData_json \<lparr>lockId = id1, timestamp = now2\<rparr>)) =
        Some (LockData_json \<lparr>lockId = id1, timestamp = now2\<rparr>)"
    and young: "of_int later1 - of_int now2 < LOCK_TIMEOUT"
  shows "acquireTabLock E id2 later1 later2 t2 (snd (snd (acquireTabLock E id1 now1 now2 t1 s))) =
           (Inr (False, None), t2, snd (snd (acquireTabLock E id1 now1 now2 t1 s))) \<and>
         items (snd (snd (acquireTabLock E id1 now1 now2 t1 s))) LOCK_KEY =
           Some (JSON_stringify E (LockData_json \<lparr>lockId = id1, timestamp = now2\<rparr>))"
proof -
  let ?text = "JSON_stringify E (LockData_json \<lparr>lockId = id1, timestamp = now2\<rparr>)"
  let ?s' = "snd (snd (acquireTabLock E id1 now1 now2 t1 s))"
  from first have held: "items ?s' LOCK_KEY = Some ?text"
    and mine: "stored_lockId E ?s' = Some (JStr id1)"
    using acquireTabLock_acquired by blast+
  have "?text \<noteq> []"
  proof
    assume "?text = []"
    with held have "getLockData E ?s' = Inr JNull"
      by (simp add: getLockData_def getLockData_try_def getItem_def)
    with mine show False by (simp add: stored_lockId_def)
  qed
  with held reads_back have rec: "getLockData E ?s' = Inr (LockData_json \<lparr>lockId = id1, timestamp = now2\<rparr>)"
    by (intro getLockData_record [where raw = ?text]) simp_all
  from rec young have "acquireTabLock E id2 later1 later2 t2 ?s' = (Inr (False, None), t2, ?s')"
    by (rule acquireTabLock_held)
  with held show ?thesis by blast
qed

theorem lock_is_exclusive_witness:
  "fst (acquireTabLock host id_A 1760083200000 1760083200001 tab_fresh store_empty) = Inr (True, Some id_A) \<and>
   JSON_parse host (JSON_stringify host (LockData_json \<lparr>lockId = id_A, timestamp = 1760083200001\<rparr>)) =
     Some (LockData_json \<lparr>lockId = id_A, timestamp = 1760083200001\<rparr>) \<and>
   (of_int 1760083200050 :: real) - of_int 1760083200001 < LOCK_TIMEOUT \<and>
   acquireTabLock host id_B 1760083200050 1760083200051 tab_fresh
       (snd (snd (acquireTabLock host id_A 1760083200000 1760083200001 tab_fresh store_empty))) =
     (Inr (False, None), tab_fresh,
      snd (snd (acquireTabLock host id_A 1760083200000 1760083200001 tab_fresh store_empty)))"
proof -
  have str: \<open>json_stringify (LockData_json \<lparr>lockId = id_A, timestamp = 1760083200001\<rparr>) =
      ''{"lockId":"0a1b2c3d-0000-4000-8000-00000000000a","timestamp":1760083200001}''\<close>
    by (simp add: LockData_json_def id_A_def host_eval)
  have h2: "JSON_parse host (JSON_stringify host (LockData_json \<lparr>lockId = id_A, timestamp = 1760083200001\<rparr>)) =
      Some (LockData_json \<lparr>lockId = id_A, timestamp = 1760083200001\<rparr>)"
    unfolding host_fields str by (simp add: LockData_json_def id_A_def host_eval)
  have absent: "getLockData host store_empty = Inr JNull"
    by (rule getLockData_absent) (simp add: store_empty_def)
  have ok: "faults store_empty (writes store_empty) = None"
    by (simp add: store_empty_def no_faults_def)
  have ne: "JSON_stringify host (LockData_json \<lparr>lockId = id_A, timestamp = 1760083200001\<rparr>) \<noteq> []"
    by (simp add: host_fields str)
  have h1: "fst (acquireTabLock host id_A 1760083200000 1760083200001 tab_fresh store_empty) =
      Inr (True, Some id_A)"
    using acquireTabLock_unheld_acquires [OF absent ok ne h2] by blast
  have h3: "(of_int 1760083200050 :: real) - of_int 1760083200001 < LOCK_TIMEOUT"
    by (simp add: LOCK_TIMEOUT_def)
  from lock_is_exclusive [OF h1 h2 h3, of id_B 1760083200051 tab_fresh] h1 h2 h3
  show ?thesis by blast
qed

section \<open>The heartbeat\<close>







section \<open>The cached metadata\<close>

lemma commit_store: "snd (commit E D st s) = snd (atomicWrite E D s)"
  by (simp add: commit_def split: prod.splits sum.splits)

lemma read_after_write_host:
  assumes valid: "AppDataSchema_safeParse host (AppData_json D) = Some D"
    and ne: "json_stringify (AppData_json D) \<noteq> []"
    and rb: "json_parse (json_stringify (AppData_json D)) = Some (AppData_json D)"
    and ok: "faults s (writes s) = None" "faults s (Suc (writes s)) = None"
  shows "readStorage host (snd (atomicWrite host D s)) = Inr (Some D)"
proof -
  from valid ok have "fst (atomicWrite host D s) = Inr ()"
    by (intro atomicWrite_no_fault) simp_all
  then have "items (snd (atomicWrite host D s)) STORAGE_KEY = Some (JSON_stringify host (AppData_json D))"
    by (rule atomicWrite_success_items)
  then have "items (snd (atomicWrite host D s)) STORAGE_KEY = Some (json_stringify (AppData_json D))"
    by (simp add: host_fields)
  from this ne rb valid show ?thesis
    by (rule readStorage_host)
qed

lemma read_store_one: "readStorage host store_one = Inr (Some doc_one)"
  by (rule readStorage_host)
     (simp_all add: store_one_def store_with_def nonempty_doc_one parse_doc_one valid_doc_one)

lemma store_one_no_faults: "faults store_one n = None"
  by (simp add: store_one_def store_with_def no_faults_def)

lemma string_doc_after_delete: \<open>json_stringify (AppData_json doc_after_delete) = ''{"metadata":{"version":"1.0.0","lastModified":"2025-10-11T09:00:00.000Z","totalTaskCount":0,"oldestTaskDate":"2025-10-10","newestTaskDate":"2025-10-10"},"tasks":[],"preferences":{"lastViewedDate":"2025-10-10","sortOrder":"newest-first"}}''\<close>
  by (simp add: doc_after_delete_def doc_eval host_eval)

lemma parse_doc_after_delete:
  "json_parse (json_stringify (AppData_json doc_after_delete)) = Some (AppData_json doc_after_delete)"
  unfolding string_doc_after_delete
  by (simp add: doc_after_delete_def doc_eval host_eval)

lemma valid_doc_after_delete:
  "AppDataSchema_safeParse host (AppData_json doc_after_delete) = Some doc_after_delete"
  by (simp add: doc_after_delete_def doc_eval host_eval)

lemma string_doc_after_add: \<open>json_stringify (AppData_json doc_after_add) = ''{"metadata":{"version":"1.0.0","lastModified":"2025-10-11T09:00:00.000Z","totalTaskCount":2,"oldestTaskDate":"2025-10-10","newestTaskDate":"2025-10-01"},"tasks":[{"id":"123e4567-e89b-42d3-a456-426614174000","description":"Test task","completed":false,"createdAt":"2025-10-10T08:00:00.000Z","completedAt":null,"date":"2025-10-10"},{"id":"0a1b2c3d-0000-4000-8000-00000000000b","description":"Earlier","completed":false,"createdAt":"2025-10-11T09:00:00.000Z","completedAt":null,"date":"2025-10-01"}],"preferences":{"lastViewedDate":"2025-10-10","sortOrder":"newest-first"}}''\<close>
  by (simp add: doc_after_add_def task1_def task2_def id_B_def doc_eval host_eval)

lemma parse_doc_after_add:
  "json_parse (json_stringify (AppData_json doc_after_add)) = Some (AppData_json doc_after_add)"
  unfolding string_doc_after_add
  by (simp add: doc_after_add_def task1_def task2_def id_B_def doc_eval host_eval)

lemma valid_doc_after_add:
  "AppDataSchema_safeParse host (AppData_json doc_after_add) = Some doc_after_add"
  by (simp add: doc_after_add_def task1_def task2_def id_B_def doc_eval host_eval)

lemma nonempty_doc_after_delete: "json_stringify (AppData_json doc_after_delete) \<noteq> []"
  by (simp add: string_doc_after_delete)

lemma nonempty_doc_after_add: "json_stringify (AppData_json doc_after_add) \<noteq> []"
  by (simp add: string_doc_after_add)

lemma deleteTask_store_one:
  "snd (deleteTask host ''2025-10-11T09:00:00.000Z'' (task_id task1) tasks_one store_one) =
     snd (atomicWrite host doc_after_delete store_one)"
  by (simp add: deleteTask_def read_store_one commit_store Let_def)
     (simp add: doc_one_def doc_after_delete_def)

lemma addTask_store_one:
  "snd (addTask host id_B ''2025-10-11T09:00:00.000Z'' ''2025-10-11T09:00:00.000Z''
          ''2025-10-11T09:00:00.000Z'' ''2025-10-11'' ''  Earlier '' (Some ''2025-10-01'')
          tasks_one store_one) =
     snd (atomicWrite host doc_after_add store_one)"
proof -
  have t: "trim ''  Earlier '' = ''Earlier''"
    by (simp add: trim_def js_space_def)
  show ?thesis
    by (simp add: addTask_def t read_store_one commit_store Let_def or_else_def)
       (simp add: doc_one_def doc_after_add_def task2_def)
qed

text \<open>
  Claim C6, run on the code. The stored document \<open>doc_one\<close> has one task and
  metadata that agree with it. Deleting the task leaves a document with no task,
  a count of zero and both cached dates still set; adding a task for an earlier
  date leaves the earlier date as the newest one and the later date as the
  oldest one. In both cases the persisted metadata differ from what the task
  list computes.
\<close>

theorem metadata_cache_goes_stale:
  "readStorage host store_one = Inr (Some doc_one) \<and> metadata_consistent doc_one \<and>
   readStorage host
     (snd (deleteTask host ''2025-10-11T09:00:00.000Z'' (task_id task1) tasks_one store_one)) =
     Inr (Some doc_after_delete) \<and>
   \<not> metadata_consistent doc_after_delete \<and>
   readStorage host
     (snd (addTask host id_B ''2025-10-11T09:00:00.000Z'' ''2025-10-11T09:00:00.000Z''
             ''2025-10-11T09:00:00.000Z'' ''2025-10-11'' ''  Earlier '' (Some ''2025-10-01'')
             tasks_one store_one)) =
     Inr (Some doc_after_add) \<and>
   \<not> metadata_consistent doc_after_add"
proof -
  have c1: "metadata_consistent doc_one"
    by (simp add: metadata_consistent_def doc_one_def task1_def)
  have d: "readStorage host (snd (atomicWrite host doc_after_delete store_one)) =
      Inr (Some doc_after_delete)"
    by (rule read_after_write_host)
       (simp_all add: valid_doc_after_delete parse_doc_after_delete nonempty_doc_after_delete
          store_one_no_faults)
  have c2: "\<not> metadata_consistent doc_after_delete"
    by (simp add: metadata_consistent_def doc_after_delete_def)
  have a: "readStorage host (snd (atomicWrite host doc_after_add store_one)) =
      Inr (Some doc_after_add)"
    by (rule read_after_write_host)
       (simp_all add: valid_doc_after_add parse_doc_after_add nonempty_doc_after_add
          store_one_no_faults)
  have c3: "\<not> metadata_consistent doc_after_add"
    by (simp add: metadata_consistent_def doc_after_add_def task1_def task2_def)
  from read_store_one c1 d c2 a c3 show ?thesis
    by (simp only: deleteTask_store_one addTask_store_one simp_thms)
qed

section \<open>Releasing the lock\<close>

text \<open>
  Claim C8. For every identifier and every store, \<open>releaseTabLock\<close> does not throw;
  it removes the lock record exactly when the stored record carries the given
  identifier, and otherwise leaves the store and the tab as they were; a second
  call with the same identifier right after the first changes nothing.
\<close>

theorem releaseTabLock_idempotent:
  "case releaseTabLock E lid t s of
     (r, t1, s1) \<Rightarrow>
       r = Inr () \<and>
       s1 = (if stored_lockId E s = Some (JStr lid) then removeItem LOCK_KEY s else s) \<and>
       (if stored_lockId E s = Some (JStr lid) then currentLockId t1 = None else t1 = t) \<and>
       releaseTabLock E lid t1 s1 = (Inr (), t1, s1)"
proof -
  obtain v where v: "getLockData E s = Inr v"
    using getLockData_Inr by blast
  show ?thesis
  proof (cases "get_prop_opt v ''lockId'' = Some (JStr lid)")
    case True
    have gone: "getLockData E (removeItem LOCK_KEY s) = Inr JNull"
      by (rule getLockData_absent) (simp add: removeItem_def)
    from True v gone show ?thesis
      by (simp add: releaseTabLock_def releaseTabLock_try_def stored_lockId_def Let_def stopHeartbeat_def)
  next
    case False
    with v show ?thesis
      by (simp add: releaseTabLock_def releaseTabLock_try_def stored_lockId_def)
  qed
qed

end
